theory Spec2Isabelle
  imports Main "HOL-Library.Word" "HOL-Library.AList"
begin

section \<open>Data model\<close>

text \<open>
  The lending core of \<^verbatim>\<open>tomoxlending/tomoxlending.go\<close>. A \<^verbatim>\<open>common.Hash\<close> and a
  \<^verbatim>\<open>common.Address\<close> are byte arrays compared for equality only, modelled as numbers
  (the zero value is \<open>0\<close>). A \<^verbatim>\<open>time.Time\<close> is an instant, modelled as an integer count
  of nanoseconds from Go's zero time, so that \<^verbatim>\<open>IsZero\<close> is \<open>t = 0\<close>, \<^verbatim>\<open>Before\<close> is \<open><\<close>
  and \<^verbatim>\<open>Equal\<close> is \<open>=\<close>. A \<^verbatim>\<open>*big.Int\<close> is an unbounded \<open>int\<close> where the code only
  reads and adds values, and a pointer into an explicit heap where aliasing matters
  (the admission loop).
\<close>

type_synonym hash = nat
type_synonym address = nat
type_synonym Time = int

record Signature =
  SigV :: "8 word"
  SigR :: hash
  SigS :: hash

text \<open>
  \<^verbatim>\<open>lendingstate.LendingItem\<close>. The type parameter is the representation of the
  \<^verbatim>\<open>*big.Int\<close> fields: \<open>int\<close> for the records of the secondary store (the pointers of a
  stored or synchronised record are taken to be allocated and not shared between
  records), a heap pointer for the orders built by \<^verbatim>\<open>ProcessOrderPending\<close>. The type
  declaration is not part of the source file; the fields are the ones the source reads
  and writes.
\<close>

record 'n LendingItem =
  Quantity :: 'n
  Interest :: 'n
  Side :: string
  Type :: string
  LendingToken :: address
  CollateralToken :: address
  FilledAmount :: 'n
  Status :: string
  Relayer :: address
  Term :: "64 word"
  UserAddress :: address
  Signature :: "Signature option"
  Hash :: hash
  TxHash :: hash
  Nonce :: 'n
  CreatedAt :: Time
  UpdatedAt :: Time
  LendingId :: "64 word"

record LendingTrade =
  TradeHash :: hash
  TradeTxHash :: hash
  Amount :: int
  TakerOrderHash :: hash
  MakerOrderHash :: hash
  TradeCreatedAt :: Time
  TradeUpdatedAt :: Time

text \<open>
  \<^verbatim>\<open>lendingstate.LendingItemHistoryItem\<close>: the snapshot \<^verbatim>\<open>{TxHash, FilledAmount,
  Status, UpdatedAt}\<close>. Its \<^verbatim>\<open>FilledAmount\<close> stays a nullable pointer, because
  \<^verbatim>\<open>RollbackLendingItems\<close> compares a snapshot with the zero struct, whose pointer is nil.
\<close>

record LendingItemHistoryItem =
  HTxHash :: hash
  HFilledAmount :: "int option"
  HStatus :: string
  HUpdatedAt :: Time

definition emptyHistoryItem :: LendingItemHistoryItem where
  "emptyHistoryItem = \<lparr>HTxHash = 0, HFilledAmount = None, HStatus = [], HUpdatedAt = 0\<rparr>"

text \<open>
  Modelled from the spec: the status and order-type constants of package
  \<^verbatim>\<open>lendingstate\<close> (not in the source file). The spec lists
  \<open>Status \<in> {New, Open, PartialFilled, Filled, Cancelled, Rejected}\<close> and the types
  limit and market; the Go type of both fields is \<^verbatim>\<open>string\<close>.
\<close>

definition LendingStatusNew :: string where "LendingStatusNew = ''NEW''"
definition LendingStatusOpen :: string where "LendingStatusOpen = ''OPEN''"
definition LendingStatusPartialFilled :: string where
  "LendingStatusPartialFilled = ''PARTIAL_FILLED''"
definition LendingStatusFilled :: string where "LendingStatusFilled = ''FILLED''"
definition LendingStatusCancelled :: string where "LendingStatusCancelled = ''CANCELLED''"
definition LendingStatusReject :: string where "LendingStatusReject = ''REJECTED''"
definition Limit :: string where "Limit = ''LO''"
definition Market :: string where "Market = ''MO''"

section \<open>The secondary store\<close>

text \<open>
  Modelled from the spec: the secondary store behind \<^verbatim>\<open>tomoxDAO.TomoXDAO\<close> (an
  interface; no implementation is in the source file). The spec names
  \<^verbatim>\<open>GetObject\<close>, \<^verbatim>\<open>PutObject\<close>, \<^verbatim>\<open>DeleteObject\<close>, \<^verbatim>\<open>GetListLendingItemByHashes\<close>,
  \<^verbatim>\<open>GetLendingItemByTxHash\<close>, \<^verbatim>\<open>DeleteLendingTradeByTxHash\<close> and a bulk session with
  \<^verbatim>\<open>CommitLendingBulk\<close>, each of which may return an error. The store is two
  collections keyed by hash, in the order of insertion; a write is seen by the reads
  that follow it. Which writes fail is part of the store's state: \<open>PutErr\<close> and
  \<open>DeleteErr\<close> give the error text for a key, \<open>CommitErr\<close> the one of the bulk commit.
\<close>

record Store =
  itemsCollection :: "(hash \<times> int LendingItem) list"
  tradesCollection :: "(hash \<times> LendingTrade) list"
  PutErr :: "hash \<Rightarrow> string option"
  DeleteErr :: "hash \<Rightarrow> string option"
  CommitErr :: "string option"

definition GetObject :: "Store \<Rightarrow> hash \<Rightarrow> int LendingItem option" where
  "GetObject db h = map_of (itemsCollection db) h"

definition PutObject :: "Store \<Rightarrow> hash \<Rightarrow> int LendingItem \<Rightarrow> string option \<times> Store" where
  "PutObject db h v =
     (case PutErr db h of
        Some e \<Rightarrow> (Some e, db)
      | None \<Rightarrow> (None, db\<lparr>itemsCollection := AList.update h v (itemsCollection db)\<rparr>))"

definition PutTrade :: "Store \<Rightarrow> hash \<Rightarrow> LendingTrade \<Rightarrow> string option \<times> Store" where
  "PutTrade db h v =
     (case PutErr db h of
        Some e \<Rightarrow> (Some e, db)
      | None \<Rightarrow> (None, db\<lparr>tradesCollection := AList.update h v (tradesCollection db)\<rparr>))"

definition DeleteObject :: "Store \<Rightarrow> hash \<Rightarrow> string option \<times> Store" where
  "DeleteObject db h =
     (case DeleteErr db h of
        Some e \<Rightarrow> (Some e, db)
      | None \<Rightarrow> (None, db\<lparr>itemsCollection := AList.delete h (itemsCollection db)\<rparr>))"

definition GetListLendingItemByHashes :: "Store \<Rightarrow> hash list \<Rightarrow> int LendingItem list" where
  "GetListLendingItemByHashes db hs = map snd (filter (\<lambda>kv. fst kv \<in> set hs) (itemsCollection db))"

definition GetLendingItemByTxHash :: "Store \<Rightarrow> hash \<Rightarrow> int LendingItem list" where
  "GetLendingItemByTxHash db tx = map snd (filter (\<lambda>kv. TxHash (snd kv) = tx) (itemsCollection db))"

definition DeleteLendingTradeByTxHash :: "Store \<Rightarrow> hash \<Rightarrow> Store" where
  "DeleteLendingTradeByTxHash db tx =
     db\<lparr>tradesCollection := filter (\<lambda>kv. TradeTxHash (snd kv) \<noteq> tx) (tradesCollection db)\<rparr>"

definition CommitLendingBulk :: "Store \<Rightarrow> string option" where
  "CommitLendingBulk db = CommitErr db"

section \<open>The history cache\<close>

text \<open>
  \<^verbatim>\<open>lendingItemHistory\<close> is an LRU cache (\<^verbatim>\<open>hashicorp/golang-lru\<close>) of
  \<^verbatim>\<open>defaultCacheLimit\<close> entries, from a transaction hash to a bucket of snapshots. The
  list holds the most recently used entry first: \<^verbatim>\<open>Get\<close> moves the entry to the front,
  \<^verbatim>\<open>Add\<close> on a new key pushes it to the front and evicts the last entry when the
  capacity is exceeded, \<^verbatim>\<open>Remove\<close> deletes it.
\<close>

definition defaultCacheLimit :: nat where
  "defaultCacheLimit = 1024"

text \<open>
  Modelled from the spec: \<^verbatim>\<open>lendingstate.GetLendingItemHistoryKey\<close> (not in the source
  file); the spec keys a snapshot by \<open>(LendingToken, CollateralToken, OrderHash)\<close>.
\<close>

type_synonym hkey = "address \<times> address \<times> hash"

definition GetLendingItemHistoryKey :: "address \<Rightarrow> address \<Rightarrow> hash \<Rightarrow> hkey" where
  "GetLendingItemHistoryKey lt ct h = (lt, ct, h)"

type_synonym bucket = "hkey \<Rightarrow> LendingItemHistoryItem option"
type_synonym cache = "(hash \<times> bucket) list"

definition lru_Get :: "cache \<Rightarrow> hash \<Rightarrow> bucket option \<times> cache" where
  "lru_Get c k =
     (case map_of c k of
        None \<Rightarrow> (None, c)
      | Some v \<Rightarrow> (Some v, (k, v) # AList.delete k c))"

definition lru_Add :: "cache \<Rightarrow> hash \<Rightarrow> bucket \<Rightarrow> cache" where
  "lru_Add c k v =
     (case map_of c k of
        Some _ \<Rightarrow> (k, v) # AList.delete k c
      | None \<Rightarrow> take defaultCacheLimit ((k, v) # c))"

definition lru_Remove :: "cache \<Rightarrow> hash \<Rightarrow> cache" where
  "lru_Remove c k = AList.delete k c"

text \<open>
  The fields of \<^verbatim>\<open>Lending\<close> that the synchroniser and the rollback use: the secondary
  store and the history cache.
\<close>

record Lending =
  mongodb :: Store
  lendingItemHistory :: cache

definition UpdateLendingItemCache ::
  "Lending \<Rightarrow> address \<Rightarrow> address \<Rightarrow> hash \<Rightarrow> hash \<Rightarrow> LendingItemHistoryItem \<Rightarrow> Lending" where
  "UpdateLendingItemCache l lt ct h txhash lastState =
     (let (c, cache1) = lru_Get (lendingItemHistory l) txhash;
          lendingCacheAtTxHash = (case c of None \<Rightarrow> Map.empty | Some b \<Rightarrow> b);
          orderKey = GetLendingItemHistoryKey lt ct h;
          lendingCacheAtTxHash' =
            (case lendingCacheAtTxHash orderKey of
               None \<Rightarrow> lendingCacheAtTxHash(orderKey \<mapsto> lastState)
             | Some _ \<Rightarrow> lendingCacheAtTxHash)
      in l\<lparr>lendingItemHistory := lru_Add cache1 txhash lendingCacheAtTxHash'\<rparr>)"

text \<open>
  The snapshot the source takes of a record before it changes it
  (\<^verbatim>\<open>CloneBigInt\<close> copies the value of \<^verbatim>\<open>FilledAmount\<close> into a fresh big integer, so
  the pointer of a snapshot is never nil).
\<close>

definition snapshot :: "int LendingItem \<Rightarrow> LendingItemHistoryItem" where
  "snapshot r =
     \<lparr>HTxHash = TxHash r, HFilledAmount = Some (FilledAmount r),
      HStatus = Status r, HUpdatedAt = UpdatedAt r\<rparr>"

section \<open>The SDK synchroniser\<close>

text \<open>
  What \<^verbatim>\<open>SyncDataToSDKNode\<close> gives back: one value for each \<^verbatim>\<open>fmt.Errorf\<close> of the
  source, with the hash and the text of the store's error that the message carries.
  \<open>NilPointerPanic\<close> is not a returned error: it is the panic of \<^verbatim>\<open>big.Int.Add\<close> on the
  nil pointer that the lookup of a missing key in \<^verbatim>\<open>makerDirtyFilledAmount\<close> gives.
\<close>

datatype sync_error =
    StoreLendingTradeFailed string
  | PutTakerFailed hash string
  | PutMakerFailed hash string
  | RejectTakerFailed hash string
  | UpdateRejectedFailed string
  | CommitBulkFailed hash string
  | NilPointerPanic

text \<open>The ordering gate of the taker (the \<^verbatim>\<open>if\<close> before \<^verbatim>\<open>*dirtyOrderCount++\<close>).\<close>

definition staleTaker :: "Time \<Rightarrow> Time \<Rightarrow> 64 word \<Rightarrow> bool" where
  "staleTaker txMatchTime updatedAt dirtyOrderCount \<longleftrightarrow>
     txMatchTime < updatedAt \<or> (txMatchTime = updatedAt \<and> dirtyOrderCount = 0)"

text \<open>
  The status recomputations: of the taker after one trade is folded in, of a Market
  taker after the loop over the trades, and of a maker.
\<close>

definition takerApplyTrade :: "int \<Rightarrow> int LendingItem \<Rightarrow> int LendingItem" where
  "takerApplyTrade filledAmount ut =
     (let ut1 = ut\<lparr>FilledAmount := FilledAmount ut + filledAmount\<rparr>
      in if FilledAmount ut1 < Quantity ut1 \<and> Type ut1 = Limit
         then ut1\<lparr>Status := LendingStatusPartialFilled\<rparr>
         else ut1\<lparr>Status := LendingStatusFilled\<rparr>)"

definition takerMarketStatus :: "int LendingItem \<Rightarrow> int LendingItem" where
  "takerMarketStatus ut =
     (if Type ut = Market
      then (if FilledAmount ut > 0
            then ut\<lparr>Status := LendingStatusFilled\<rparr>
            else ut\<lparr>Status := LendingStatusReject\<rparr>)
      else ut)"

definition makerUpdate :: "hash \<Rightarrow> Time \<Rightarrow> int \<Rightarrow> int LendingItem \<Rightarrow> int LendingItem" where
  "makerUpdate txHash txMatchTime amount m =
     (let m1 = m\<lparr>TxHash := txHash, UpdatedAt := txMatchTime,
                  FilledAmount := FilledAmount m + amount\<rparr>
      in if FilledAmount m1 < Quantity m1
         then m1\<lparr>Status := LendingStatusPartialFilled\<rparr>
         else m1\<lparr>Status := LendingStatusFilled\<rparr>)"

text \<open>
  The loop over the trades: the store, \<^verbatim>\<open>makerDirtyFilledAmount\<close>,
  \<^verbatim>\<open>makerDirtyHashes\<close> and the taker record are its state. A failing write returns at
  once, with what was written before.
\<close>

type_synonym trade_state = "Store \<times> (hash \<Rightarrow> int option) \<times> hash list \<times> int LendingItem"

fun sync_trades :: "Time \<Rightarrow> LendingTrade list \<Rightarrow> trade_state \<Rightarrow> sync_error option \<times> trade_state" where
  "sync_trades txMatchTime [] st = (None, st)"
| "sync_trades txMatchTime (tradeRecord # rest) (db, dirty, hashes, ut) =
     (let tr1 = (if TradeCreatedAt tradeRecord = 0
                 then tradeRecord\<lparr>TradeCreatedAt := txMatchTime\<rparr> else tradeRecord);
          tr2 = tr1\<lparr>TradeUpdatedAt := txMatchTime\<rparr>
      in case PutTrade db (TradeHash tr2) tr2 of
           (Some e, db') \<Rightarrow> (Some (StoreLendingTradeFailed e), (db', dirty, hashes, ut))
         | (None, db') \<Rightarrow>
             (let filledAmount = Amount tr2;
                  makerFilledAmount =
                    (case dirty (MakerOrderHash tr2) of Some amount \<Rightarrow> amount | None \<Rightarrow> 0)
                    + filledAmount
              in sync_trades txMatchTime rest
                   (db', dirty(MakerOrderHash tr2 \<mapsto> makerFilledAmount),
                    hashes @ [MakerOrderHash tr2], takerApplyTrade filledAmount ut)))"

text \<open>The loop over the maker records fetched from the store.\<close>

fun sync_makers ::
  "hash \<Rightarrow> Time \<Rightarrow> (hash \<Rightarrow> int option) \<Rightarrow> int LendingItem list \<Rightarrow> Lending
   \<Rightarrow> sync_error option \<times> Lending" where
  "sync_makers txHash txMatchTime dirty [] l = (None, l)"
| "sync_makers txHash txMatchTime dirty (m # rest) l =
     (if txMatchTime < UpdatedAt m then sync_makers txHash txMatchTime dirty rest l
      else
        (let l1 = UpdateLendingItemCache l (LendingToken m) (CollateralToken m) (Hash m)
                    txHash (snapshot m)
         in case dirty (Hash m) of
              None \<Rightarrow> (Some NilPointerPanic, l1)
            | Some amount \<Rightarrow>
                (let m' = makerUpdate txHash txMatchTime amount m
                 in case PutObject (mongodb l1) (Hash m') m' of
                      (Some e, db') \<Rightarrow> (Some (PutMakerFailed (Hash m') e), l1\<lparr>mongodb := db'\<rparr>)
                    | (None, db') \<Rightarrow>
                        sync_makers txHash txMatchTime dirty rest (l1\<lparr>mongodb := db'\<rparr>))))"

text \<open>
  The first loop over the rejected items: it collects their hashes and rejects the
  taker record in memory when a rejected item has the taker's hash.
\<close>

type_synonym reject_state = "Lending \<times> int LendingItem \<times> hash list"

fun sync_reject_taker ::
  "hash \<Rightarrow> Time \<Rightarrow> int LendingItem list \<Rightarrow> reject_state \<Rightarrow> sync_error option \<times> reject_state" where
  "sync_reject_taker txHash txMatchTime [] st = (None, st)"
| "sync_reject_taker txHash txMatchTime (r # rest) (l, ut, rejectedHashes) =
     (let rejectedHashes' = rejectedHashes @ [Hash r]
      in if Hash ut = Hash r \<and> \<not> txMatchTime < UpdatedAt r
         then
           (let l1 = UpdateLendingItemCache l (LendingToken ut) (CollateralToken ut) (Hash ut)
                       txHash (snapshot ut);
                ut' = ut\<lparr>Status := LendingStatusReject, TxHash := txHash,
                          UpdatedAt := txMatchTime\<rparr>
            in case PutObject (mongodb l1) (Hash ut') ut' of
                 (Some e, db') \<Rightarrow>
                   (Some (RejectTakerFailed (Hash ut') e), (l1\<lparr>mongodb := db'\<rparr>, ut', rejectedHashes'))
               | (None, db') \<Rightarrow>
                   sync_reject_taker txHash txMatchTime rest
                     (l1\<lparr>mongodb := db'\<rparr>, ut', rejectedHashes'))
         else sync_reject_taker txHash txMatchTime rest (l, ut, rejectedHashes'))"

text \<open>The second loop, over the rejected records fetched from the store.\<close>

definition rejectUpdate ::
  "hash \<Rightarrow> Time \<Rightarrow> (hash \<Rightarrow> int option) \<Rightarrow> int LendingItem \<Rightarrow> int LendingItem" where
  "rejectUpdate txHash txMatchTime dirty r =
     (let r1 = (case dirty (Hash r) of
                  Some dirtyFilledAmount \<Rightarrow> r\<lparr>FilledAmount := FilledAmount r + dirtyFilledAmount\<rparr>
                | None \<Rightarrow> r)
      in r1\<lparr>Status := LendingStatusReject, TxHash := txHash, UpdatedAt := txMatchTime\<rparr>)"

fun sync_rejected ::
  "hash \<Rightarrow> Time \<Rightarrow> (hash \<Rightarrow> int option) \<Rightarrow> int LendingItem list \<Rightarrow> Lending
   \<Rightarrow> sync_error option \<times> Lending" where
  "sync_rejected txHash txMatchTime dirty [] l = (None, l)"
| "sync_rejected txHash txMatchTime dirty (r # rest) l =
     (if txMatchTime < UpdatedAt r then sync_rejected txHash txMatchTime dirty rest l
      else
        (let l1 = UpdateLendingItemCache l (LendingToken r) (CollateralToken r) (Hash r)
                    txHash (snapshot r);
             r' = rejectUpdate txHash txMatchTime dirty r
         in case PutObject (mongodb l1) (Hash r') r' of
              (Some e, db') \<Rightarrow> (Some (UpdateRejectedFailed e), l1\<lparr>mongodb := db'\<rparr>)
            | (None, db') \<Rightarrow>
                sync_rejected txHash txMatchTime dirty rest (l1\<lparr>mongodb := db'\<rparr>)))"

definition sync_rejects ::
  "hash \<Rightarrow> Time \<Rightarrow> (hash \<Rightarrow> int option) \<Rightarrow> int LendingItem list \<Rightarrow> int LendingItem \<Rightarrow> Lending
   \<Rightarrow> sync_error option \<times> Lending" where
  "sync_rejects txHash txMatchTime dirty rejectedItems ut l =
     (if rejectedItems \<noteq> [] then
        (case sync_reject_taker txHash txMatchTime rejectedItems (l, ut, []) of
           (Some e, (l1, ut1, rejectedHashes)) \<Rightarrow> (Some e, l1)
         | (None, (l1, ut1, rejectedHashes)) \<Rightarrow>
             sync_rejected txHash txMatchTime dirty
               (GetListLendingItemByHashes (mongodb l1) rejectedHashes) l1)
      else (None, l))"

text \<open>
  Everything after the gate: \<open>ut\<close> is \<^verbatim>\<open>updatedTakerLendingItem\<close> as the gate saw it,
  \<open>lastState\<close> the snapshot of the stored taker (the zero struct when there is none).
\<close>

definition sync_apply ::
  "Lending \<Rightarrow> int LendingItem \<Rightarrow> LendingItemHistoryItem \<Rightarrow> hash \<Rightarrow> Time \<Rightarrow> LendingTrade list
   \<Rightarrow> int LendingItem list \<Rightarrow> sync_error option \<times> Lending" where
  "sync_apply l ut lastState txHash txMatchTime trades rejectedItems =
     (let l1 = UpdateLendingItemCache l (LendingToken ut) (CollateralToken ut) (Hash ut)
                 txHash lastState;
          ut1 = ut\<lparr>UpdatedAt := txMatchTime\<rparr>
      in case sync_trades txMatchTime trades (mongodb l1, Map.empty, [], ut1) of
           (Some e, (db2, dirty, hashes, ut2)) \<Rightarrow> (Some e, l1\<lparr>mongodb := db2\<rparr>)
         | (None, (db2, dirty, hashes, ut2)) \<Rightarrow>
             (let ut3 = takerMarketStatus ut2
              in case PutObject db2 (Hash ut3) ut3 of
                   (Some e, db3) \<Rightarrow> (Some (PutTakerFailed (Hash ut3) e), l1\<lparr>mongodb := db3\<rparr>)
                 | (None, db3) \<Rightarrow>
                     (case sync_makers txHash txMatchTime dirty
                             (GetListLendingItemByHashes db3 hashes) (l1\<lparr>mongodb := db3\<rparr>) of
                        (Some e, l4) \<Rightarrow> (Some e, l4)
                      | (None, l4) \<Rightarrow>
                          (case sync_rejects txHash txMatchTime dirty rejectedItems ut3 l4 of
                             (Some e, l5) \<Rightarrow> (Some e, l5)
                           | (None, l5) \<Rightarrow>
                               (case CommitLendingBulk (mongodb l5) of
                                  Some e \<Rightarrow> (Some (CommitBulkFailed txHash e), l5)
                                | None \<Rightarrow> (None, l5))))))"

text \<open>
  \<^verbatim>\<open>updatedTakerLendingItem\<close> as the source has it when it reaches the gate, and the
  snapshot \<^verbatim>\<open>lastState\<close> of the stored taker. A \<^verbatim>\<open>GetObject\<close> that fails is treated by
  the source like a missing record.
\<close>

definition takerLastState :: "Store \<Rightarrow> int LendingItem \<Rightarrow> LendingItemHistoryItem" where
  "takerLastState db takerLendingItem =
     (case GetObject db (Hash takerLendingItem) of
        Some originTakerLendingItem \<Rightarrow> snapshot originTakerLendingItem
      | None \<Rightarrow> emptyHistoryItem)"

definition takerAtGate :: "Store \<Rightarrow> int LendingItem \<Rightarrow> hash \<Rightarrow> Time \<Rightarrow> int LendingItem" where
  "takerAtGate db takerLendingItem txHash txMatchTime =
     (let ut0 = (case GetObject db (Hash takerLendingItem) of
                   Some originTakerLendingItem \<Rightarrow> originTakerLendingItem
                 | None \<Rightarrow> takerLendingItem);
          ut1 = (if Status takerLendingItem \<noteq> LendingStatusCancelled
                 then ut0\<lparr>Status := LendingStatusOpen\<rparr>
                 else ut0\<lparr>Status := LendingStatusCancelled\<rparr>);
          ut2 = ut1\<lparr>TxHash := txHash\<rparr>
      in if CreatedAt ut2 = 0 then ut2\<lparr>CreatedAt := txMatchTime\<rparr> else ut2)"

text \<open>
  \<^verbatim>\<open>SyncDataToSDKNode\<close>. The result is the returned error, the \<^verbatim>\<open>Lending\<close> after the
  call and the caller's counter \<^verbatim>\<open>*dirtyOrderCount\<close> after it (a \<^verbatim>\<open>uint64\<close>).
\<close>

definition SyncDataToSDKNode ::
  "Lending \<Rightarrow> int LendingItem \<Rightarrow> hash \<Rightarrow> Time \<Rightarrow> LendingTrade list \<Rightarrow> int LendingItem list
   \<Rightarrow> 64 word \<Rightarrow> sync_error option \<times> Lending \<times> 64 word" where
  "SyncDataToSDKNode l takerLendingItem txHash txMatchTime trades rejectedItems dirtyOrderCount =
     (let lastState = takerLastState (mongodb l) takerLendingItem;
          ut = takerAtGate (mongodb l) takerLendingItem txHash txMatchTime
      in if staleTaker txMatchTime (UpdatedAt ut) dirtyOrderCount
         then (None, l, dirtyOrderCount)
         else (case sync_apply l ut lastState txHash txMatchTime trades rejectedItems of
                 (e, l') \<Rightarrow> (e, l', dirtyOrderCount + 1)))"


section \<open>The reorg rollback\<close>

text \<open>
  \<^verbatim>\<open>RollbackLendingItems\<close> has no result: a failing \<^verbatim>\<open>DeleteObject\<close> or \<^verbatim>\<open>PutObject\<close> goes
  to \<^verbatim>\<open>log.Error\<close> and the loop goes on. The model gives back the \<^verbatim>\<open>Lending\<close> after the
  call and the lines written to the error log (message and error text); the flag is
  set when \<^verbatim>\<open>CloneBigInt\<close> is handed the nil pointer of a snapshot that is not the zero
  struct, where the Go code panics.
\<close>

type_synonym error_log = "(string \<times> string) list"

definition rollback_remove :: "int LendingItem \<Rightarrow> Lending \<times> error_log \<Rightarrow> Lending \<times> error_log" where
  "rollback_remove item st =
     (case st of (l, lg) \<Rightarrow>
        (case DeleteObject (mongodb l) (Hash item) of
           (Some e, db') \<Rightarrow>
             (l\<lparr>mongodb := db'\<rparr>, lg @ [(''SDKNode: failed to remove reorg lendingItem'', e)])
         | (None, db') \<Rightarrow> (l\<lparr>mongodb := db'\<rparr>, lg)))"

text \<open>One round of the loop over the records stamped with the hash.\<close>

definition rollback_item ::
  "hash \<Rightarrow> int LendingItem \<Rightarrow> Lending \<times> error_log \<Rightarrow> bool \<times> Lending \<times> error_log" where
  "rollback_item txhash item st =
     (case st of (l, lg) \<Rightarrow>
        (let (c, cache1) = lru_Get (lendingItemHistory l) txhash;
             l0 = l\<lparr>lendingItemHistory := cache1\<rparr>
         in case c of
              None \<Rightarrow> (False, rollback_remove item (l0, lg))
            | Some cacheAtTxHash \<Rightarrow>
                (let lendingItemHistory =
                       (case cacheAtTxHash (GetLendingItemHistoryKey (LendingToken item)
                                              (CollateralToken item) (Hash item)) of
                          Some h \<Rightarrow> h | None \<Rightarrow> emptyHistoryItem)
                 in if lendingItemHistory = emptyHistoryItem
                    then (False, rollback_remove item (l0, lg))
                    else
                      (case HFilledAmount lendingItemHistory of
                         None \<Rightarrow> (True, l0, lg)
                       | Some filledAmount \<Rightarrow>
                           (let item' = item\<lparr>TxHash := HTxHash lendingItemHistory,
                                             Status := HStatus lendingItemHistory,
                                             FilledAmount := filledAmount,
                                             UpdatedAt := HUpdatedAt lendingItemHistory\<rparr>
                            in case PutObject (mongodb l0) (Hash item') item' of
                                 (Some e, db') \<Rightarrow>
                                   (False, l0\<lparr>mongodb := db'\<rparr>,
                                    lg @ [(''SDKNode: failed to update reorg item'', e)])
                               | (None, db') \<Rightarrow> (False, l0\<lparr>mongodb := db'\<rparr>, lg))))))"

fun rollback_items ::
  "hash \<Rightarrow> int LendingItem list \<Rightarrow> Lending \<times> error_log \<Rightarrow> bool \<times> Lending \<times> error_log" where
  "rollback_items txhash [] st = (False, st)"
| "rollback_items txhash (item # rest) st =
     (case rollback_item txhash item st of
        (True, st') \<Rightarrow> (True, st')
      | (False, st') \<Rightarrow> rollback_items txhash rest st')"

definition RollbackLendingItems :: "Lending \<Rightarrow> hash \<Rightarrow> bool \<times> Lending \<times> error_log" where
  "RollbackLendingItems l txhash =
     (case rollback_items txhash (GetLendingItemByTxHash (mongodb l) txhash) (l, []) of
        (True, l1, lg) \<Rightarrow>
          (True, l1\<lparr>lendingItemHistory := lru_Remove (lendingItemHistory l1) txhash\<rparr>, lg)
      | (False, l1, lg) \<Rightarrow>
          (False,
           l1\<lparr>mongodb := DeleteLendingTradeByTxHash (mongodb l1) txhash,
               lendingItemHistory := lru_Remove (lendingItemHistory l1) txhash\<rparr>, lg))"

text \<open>
  For the statements about a rollback. A store is well formed when every record is
  kept once, under its own hash, and healthy when no write and no delete fails. The
  bucket of a transaction hash is empty when the cache has none. \<open>snapshotOf S h\<close> is
  the snapshot of the record that the map \<open>S\<close> holds under \<open>h\<close>, the zero struct when
  it holds none. \<open>sync_inv S T l\<close> relates a \<^verbatim>\<open>Lending\<close> to the records \<open>S\<close> that the store
  held before transaction \<open>T\<close> touched it: every snapshot in the bucket of \<open>T\<close> is the
  one of \<open>S\<close>, and every record is as in \<open>S\<close> or is stamped with \<open>T\<close> and has a snapshot
  in the bucket. \<open>restored b r\<close> is what a round of the rollback loop leaves of the
  record \<open>r\<close>.
\<close>

definition store_wf :: "Store \<Rightarrow> bool" where
  "store_wf db \<longleftrightarrow>
     distinct (map fst (itemsCollection db)) \<and>
     (\<forall>k v. map_of (itemsCollection db) k = Some v \<longrightarrow> Hash v = k)"


definition bucketAt :: "Lending \<Rightarrow> hash \<Rightarrow> bucket" where
  "bucketAt l txhash =
     (case map_of (lendingItemHistory l) txhash of None \<Rightarrow> Map.empty | Some b \<Rightarrow> b)"




section \<open>The order admission loop\<close>

text \<open>
  \<^verbatim>\<open>ProcessOrderPending\<close> copies an order with \<^verbatim>\<open>*originalOrder = *order\<close>, which copies
  the pointers of its \<^verbatim>\<open>*big.Int\<close> fields, so the big integers live in an explicit heap:
  a pointer is nil or the index of a cell, a fresh cell is appended at the end.
\<close>

type_synonym ptr = "nat option"
type_synonym heap = "int list"

definition deref :: "heap \<Rightarrow> ptr \<Rightarrow> int option" where
  "deref h p = (case p of None \<Rightarrow> None | Some a \<Rightarrow> if a < length h then Some (h ! a) else None)"

definition NewInt :: "heap \<Rightarrow> int \<Rightarrow> ptr \<times> heap" where
  "NewInt h v = (Some (length h), h @ [v])"

text \<open>
  Modelled from the spec: \<^verbatim>\<open>lendingstate.CloneBigInt\<close> (not in the source file); the
  spec calls it a deep copy: a fresh big integer with the value of the given one.
  Reading through a nil pointer panics.
\<close>

definition CloneBigInt :: "heap \<Rightarrow> ptr \<Rightarrow> string + ptr \<times> heap" where
  "CloneBigInt h p =
     (case deref h p of
        None \<Rightarrow> Inl ''invalid memory address or nil pointer dereference''
      | Some v \<Rightarrow> Inr (NewInt h v))"

text \<open>
  \<^verbatim>\<open>types.OrderTransaction\<close> (not in the source file), as the values its accessors
  give: \<^verbatim>\<open>Quantity()\<close> and \<^verbatim>\<open>Price()\<close> hand out pointers, \<^verbatim>\<open>Nonce()\<close> and \<^verbatim>\<open>OrderID()\<close>
  are \<^verbatim>\<open>uint64\<close>, \<^verbatim>\<open>Signature()\<close> gives the three big integers V, R and S.
\<close>

record OrderTransaction =
  txNonce :: "64 word"
  txQuantity :: ptr
  txPrice :: ptr
  txExchangeAddress :: address
  txUserAddress :: address
  txBaseToken :: address
  txQuoteToken :: address
  txStatus :: string
  txSide :: string
  txType :: string
  txOrderHash :: hash
  txOrderID :: "64 word"
  txV :: int
  txR :: int
  txS :: int

text \<open>
  \<^verbatim>\<open>strconv.ParseInt(V.String(), 10, 8)\<close>: the decimal text of a big integer parses as
  a signed 8-bit integer exactly when the value is in range; out of range is an error.
\<close>

definition ParseInt8 :: "int \<Rightarrow> int option" where
  "ParseInt8 v = (if - 128 \<le> v \<and> v \<le> 127 then Some v else None)"

text \<open>\<^verbatim>\<open>common.BigToHash\<close> keeps the low 32 bytes of the magnitude.\<close>

definition BigToHash :: "int \<Rightarrow> hash" where
  "BigToHash b = nat \<bar>b\<bar> mod 2 ^ 256"

text \<open>
  Modelled from the spec: \<^verbatim>\<open>types.NewOrderTransactionByNonce\<close> with \<^verbatim>\<open>Peek\<close>, \<^verbatim>\<open>Shift\<close>
  and \<^verbatim>\<open>Pop\<close> (not in the source file). The spec has a priority structure keyed by
  (account, nonce) that always gives the lowest available nonce across all accounts,
  advances past a transaction (shift) or drops its account (pop). An entry is an
  account, its next transaction and its later ones. The pending transactions are a Go
  map, given as the list of its entries in the order in which the run enumerates them;
  the queue keeps that order, and an account without transactions has no entry. The
  spec gives no order between two accounts whose next transactions have the same
  nonce: here the entry met first is taken, and no property below relies on it.
\<close>

type_synonym txentry = "address \<times> OrderTransaction \<times> OrderTransaction list"
type_synonym txqueue = "txentry list"

definition NewOrderTransactionByNonce ::
  "(address \<times> OrderTransaction list) list \<Rightarrow> txqueue" where
  "NewOrderTransactionByNonce pending =
     map (\<lambda>(from, accTxs). (from, hd accTxs, tl accTxs))
       (filter (\<lambda>(from, accTxs). accTxs \<noteq> []) pending)"

fun least_entry :: "txentry \<Rightarrow> txqueue \<Rightarrow> txentry" where
  "least_entry e [] = e"
| "least_entry e (x # xs) =
     (if txNonce (fst (snd x)) < txNonce (fst (snd e)) then least_entry x xs
      else least_entry e xs)"

definition Peek :: "txqueue \<Rightarrow> OrderTransaction option" where
  "Peek txs = (case txs of [] \<Rightarrow> None | e # es \<Rightarrow> Some (fst (snd (least_entry e es))))"

definition Pop :: "txqueue \<Rightarrow> txqueue" where
  "Pop txs =
     (case txs of [] \<Rightarrow> []
      | e # es \<Rightarrow> filter (\<lambda>x. fst x \<noteq> fst (least_entry e es)) txs)"

definition Shift :: "txqueue \<Rightarrow> txqueue" where
  "Shift txs =
     (case txs of [] \<Rightarrow> []
      | e # es \<Rightarrow>
          (case least_entry e es of
             (acc, t, []) \<Rightarrow> filter (\<lambda>x. fst x \<noteq> acc) txs
           | (acc, t, t' # rest) \<Rightarrow>
               map (\<lambda>x. if fst x = acc then (acc, t', rest) else x) txs))"

text \<open>
  The errors \<^verbatim>\<open>CommitOrder\<close> can give; the source compares with \<^verbatim>\<open>ErrNonceTooLow\<close> and
  \<^verbatim>\<open>ErrNonceTooHigh\<close> and treats every other error alike.
\<close>

datatype commit_error = ErrNonceTooHigh | ErrNonceTooLow | OtherError string

record MatchingResult =
  Trades :: "LendingTrade list"
  Rejects :: "ptr LendingItem list"

text \<open>
  \<^verbatim>\<open>CommitOrder\<close> is a method of another file and \<^verbatim>\<open>GetLendingOrderBookHash\<close> a function
  of \<^verbatim>\<open>lendingstate\<close>: both are parameters. \<open>'w\<close> is everything \<^verbatim>\<open>CommitOrder\<close> works
  on (the chain context and the three state databases). It receives the order by
  pointer, so it gives back the order and the heap as it leaves them, next to the
  rejected orders and the error.
\<close>

type_synonym 'w commit_fn =
  "64 word \<Rightarrow> address \<Rightarrow> 'w \<Rightarrow> heap \<Rightarrow> hash \<Rightarrow> ptr LendingItem
   \<Rightarrow> (ptr LendingItem list \<times> commit_error option) \<times> 'w \<times> heap \<times> ptr LendingItem"

type_synonym 'w pending_state =
  "txqueue \<times> ptr LendingItem list \<times> (hash \<Rightarrow> MatchingResult option) \<times> 'w \<times> heap"

text \<open>The order literal built from the transaction (with the parsed V).\<close>

definition decodeOrder :: "heap \<Rightarrow> OrderTransaction \<Rightarrow> int \<Rightarrow> ptr LendingItem \<times> heap" where
  "decodeOrder h tx n =
     (case NewInt h (sint (txNonce tx)) of
        (nonce, h1) \<Rightarrow>
          (\<lparr>Quantity = txQuantity tx, Interest = txPrice tx, Side = txSide tx,
            Type = txType tx, LendingToken = txBaseToken tx,
            CollateralToken = txQuoteToken tx, FilledAmount = None, Status = txStatus tx,
            Relayer = txExchangeAddress tx, Term = 0, UserAddress = txUserAddress tx,
            Signature = Some \<lparr>SigV = word_of_int n, SigR = BigToHash (txR tx),
                               SigS = BigToHash (txS tx)\<rparr>,
            Hash = txOrderHash tx, TxHash = 0, Nonce = nonce, CreatedAt = 0, UpdatedAt = 0,
            LendingId = txOrderID tx\<rparr>, h1))"

text \<open>
  \<^verbatim>\<open>originalOrder\<close>: the struct is copied, then \<^verbatim>\<open>Quantity\<close> alone is replaced by a
  clone.
\<close>

definition snapshotOrder :: "heap \<Rightarrow> ptr LendingItem \<Rightarrow> string + ptr LendingItem \<times> heap" where
  "snapshotOrder h order =
     (case CloneBigInt h (Quantity order) of
        Inl p \<Rightarrow> Inl p
      | Inr (q, h') \<Rightarrow> Inr (order\<lparr>Quantity := q\<rparr>, h'))"

datatype 'w pending_step =
    Finished "ptr LendingItem list \<times> (hash \<Rightarrow> MatchingResult option) \<times> 'w \<times> heap"
  | Panicked string
  | Continue "'w pending_state"

text \<open>One round of the \<^verbatim>\<open>for\<close> loop.\<close>

definition process_step ::
  "64 word \<Rightarrow> address \<Rightarrow> 'w commit_fn \<Rightarrow> (address \<Rightarrow> 64 word \<Rightarrow> hash)
   \<Rightarrow> 'w pending_state \<Rightarrow> 'w pending_step" where
  "process_step createdBlockTime coinbase CommitOrder GetLendingOrderBookHash st =
     (case st of (txs, lendingItems, matchingResults, w, h) \<Rightarrow>
        (case Peek txs of
           None \<Rightarrow> Finished (lendingItems, matchingResults, w, h)
         | Some tx \<Rightarrow>
             (case ParseInt8 (txV tx) of
                None \<Rightarrow> Continue st
              | Some n \<Rightarrow>
                  (case decodeOrder h tx n of
                     (order, h1) \<Rightarrow>
                       (case snapshotOrder h1 order of
                          Inl p \<Rightarrow> Panicked p
                        | Inr (originalOrder, h2) \<Rightarrow>
                            (let order1 = (if Status order = LendingStatusCancelled
                                           then order\<lparr>Status := LendingStatusCancelled\<rparr>
                                           else order)
                             in case CommitOrder createdBlockTime coinbase w h2
                                       (GetLendingOrderBookHash (LendingToken order1)
                                          (Term order1)) order1 of
                                  ((newRejectedOrders, err), w', h3, order2) \<Rightarrow>
                                    (case err of
                                       Some ErrNonceTooLow \<Rightarrow>
                                         Continue (Shift txs, lendingItems, matchingResults, w', h3)
                                     | Some ErrNonceTooHigh \<Rightarrow>
                                         Continue (Pop txs, lendingItems, matchingResults, w', h3)
                                     | Some (OtherError m) \<Rightarrow>
                                         Continue (Shift txs, lendingItems, matchingResults, w', h3)
                                     | None \<Rightarrow>
                                         Continue
                                           (Shift txs,
                                            lendingItems @
                                              [originalOrder\<lparr>LendingId := LendingId order2\<rparr>],
                                            matchingResults(Hash order2 \<mapsto>
                                              \<lparr>Trades = [], Rejects = newRejectedOrders\<rparr>),
                                            w', h3))))))))"

text \<open>
  The loop: \<open>None\<close> is a run that never leaves it, \<open>Some (Inl p)\<close> a panic,
  \<open>Some (Inr r)\<close> the returned lists with the state and heap left behind.
\<close>

partial_function (option) process_loop ::
  "64 word \<Rightarrow> address \<Rightarrow> 'w commit_fn \<Rightarrow> (address \<Rightarrow> 64 word \<Rightarrow> hash)
   \<Rightarrow> 'w pending_state
   \<Rightarrow> (string + ptr LendingItem list \<times> (hash \<Rightarrow> MatchingResult option) \<times> 'w \<times> heap) option" where
  "process_loop createdBlockTime coinbase CommitOrder GetLendingOrderBookHash st =
     (case process_step createdBlockTime coinbase CommitOrder GetLendingOrderBookHash st of
        Finished r \<Rightarrow> Some (Inr r)
      | Panicked p \<Rightarrow> Some (Inl p)
      | Continue st' \<Rightarrow>
          process_loop createdBlockTime coinbase CommitOrder GetLendingOrderBookHash st')"

definition ProcessOrderPending ::
  "64 word \<Rightarrow> address \<Rightarrow> 'w commit_fn \<Rightarrow> (address \<Rightarrow> 64 word \<Rightarrow> hash)
   \<Rightarrow> (address \<times> OrderTransaction list) list \<Rightarrow> 'w \<Rightarrow> heap
   \<Rightarrow> (string + ptr LendingItem list \<times> (hash \<Rightarrow> MatchingResult option) \<times> 'w \<times> heap) option" where
  "ProcessOrderPending createdBlockTime coinbase CommitOrder GetLendingOrderBookHash pending w h =
     process_loop createdBlockTime coinbase CommitOrder GetLendingOrderBookHash
       (NewOrderTransactionByNonce pending, [], Map.empty, w, h)"




section \<open>The liquidation scanner\<close>

text \<open>
  Modelled from the spec: the liquidation indices of the canonical state and their
  operations (\<^verbatim>\<open>tradingstate\<close> and \<^verbatim>\<open>lendingstate\<close>, not in the source file). The spec
  has an index (orderbook, price, lending book, set of trade ids) read by its lowest
  price, and an index (lending book, time, set of trade ids) read by its lowest time;
  an entry leaves an index through the removal operation only. A query on an empty
  index gives the price or time 0 and no entries. A bucket that becomes empty is
  dropped from its index.
\<close>

type_synonym price_index = "(int \<times> (hash \<times> hash list) list) list"
type_synonym time_index = "(int \<times> hash list) list"

record TradingState =
  mediumPriceLastEpoch :: "hash \<Rightarrow> int"
  liquidationPrices :: "(hash \<times> price_index) list"

record LendingState =
  liquidationTimes :: "(hash \<times> time_index) list"

record StateDB =
  allTradingPairs :: "string + hash list"
  allLendingPairs :: "hash list"

fun lowest_bucket :: "(int \<times> 'a) list \<Rightarrow> (int \<times> 'a) option" where
  "lowest_bucket [] = None"
| "lowest_bucket (b # bs) =
     (case lowest_bucket bs of
        None \<Rightarrow> Some b
      | Some b' \<Rightarrow> if fst b' < fst b then Some b' else Some b)"

definition GetMediumPriceLastEpoch :: "TradingState \<Rightarrow> hash \<Rightarrow> int" where
  "GetMediumPriceLastEpoch ts orderbook = mediumPriceLastEpoch ts orderbook"

definition GetLowestLiquidationPriceData ::
  "TradingState \<Rightarrow> hash \<Rightarrow> int \<Rightarrow> int \<times> (hash \<times> hash list) list" where
  "GetLowestLiquidationPriceData ts orderbook liquidationPrice =
     (case map_of (liquidationPrices ts) orderbook of
        None \<Rightarrow> (0, [])
      | Some idx \<Rightarrow> (case lowest_bucket idx of None \<Rightarrow> (0, []) | Some b \<Rightarrow> b))"

definition RemoveLiquidationPrice ::
  "TradingState \<Rightarrow> hash \<Rightarrow> int \<Rightarrow> hash \<Rightarrow> 64 word \<Rightarrow> TradingState" where
  "RemoveLiquidationPrice ts orderbook price lendingBook tradingId =
     ts\<lparr>liquidationPrices :=
          map (\<lambda>(ob, idx).
            if ob = orderbook
            then (ob,
                  filter (\<lambda>(p, books). books \<noteq> [])
                    (map (\<lambda>(p, books).
                       if p = price
                       then (p,
                             filter (\<lambda>(lb, ids). ids \<noteq> [])
                               (map (\<lambda>(lb, ids).
                                  if lb = lendingBook
                                  then (lb, filter (\<lambda>i. (word_of_nat i :: 64 word) \<noteq> tradingId) ids)
                                  else (lb, ids)) books))
                       else (p, books)) idx))
            else (ob, idx)) (liquidationPrices ts)\<rparr>"

definition GetLowestLiquidationTime :: "LendingState \<Rightarrow> hash \<Rightarrow> int \<Rightarrow> int \<times> hash list" where
  "GetLowestLiquidationTime ls lendingBook time =
     (case map_of (liquidationTimes ls) lendingBook of
        None \<Rightarrow> (0, [])
      | Some idx \<Rightarrow> (case lowest_bucket idx of None \<Rightarrow> (0, []) | Some b \<Rightarrow> b))"

definition RemoveLiquidationData :: "LendingState \<Rightarrow> hash \<Rightarrow> 64 word \<Rightarrow> hash \<Rightarrow> LendingState" where
  "RemoveLiquidationData ls lendingBook time tradingId =
     ls\<lparr>liquidationTimes :=
          map (\<lambda>(lb, idx).
            if lb = lendingBook
            then (lb,
                  filter (\<lambda>(t, ids). ids \<noteq> [])
                    (map (\<lambda>(t, ids).
                       if (word_of_int t :: 64 word) = time
                       then (t, filter (\<lambda>i. i \<noteq> tradingId) ids)
                       else (t, ids)) idx))
            else (lb, idx)) (liquidationTimes ls)\<rparr>"

text \<open>
  One sweep of the price-based pass: every trade id of every lending book recorded at
  the lowest price is removed (\<^verbatim>\<open>tradingId\<close> is the low 64 bits of the id hash).
\<close>

definition price_sweep ::
  "hash \<Rightarrow> int \<Rightarrow> (hash \<times> hash list) list \<Rightarrow> TradingState \<Rightarrow> TradingState" where
  "price_sweep orderbook lowestPrice liquidationData ts =
     foldl (\<lambda>ts1 (lendingBook, tradingIds).
              foldl (\<lambda>ts2 tradingIdHash.
                       RemoveLiquidationPrice ts2 orderbook lowestPrice lendingBook
                         (word_of_nat tradingIdHash))
                ts1 tradingIds)
       ts liquidationData"

text \<open>
  The inner \<^verbatim>\<open>for\<close> of the price-based pass: the lowest bucket is queried before the
  loop and again at the end of every round.
\<close>

partial_function (option) price_sweeps :: "hash \<Rightarrow> int \<Rightarrow> TradingState \<Rightarrow> TradingState option" where
  "price_sweeps orderbook liquidationPrice ts =
     (case GetLowestLiquidationPriceData ts orderbook liquidationPrice of
        (lowestPrice, liquidationData) \<Rightarrow>
          if 0 < lowestPrice \<and> lowestPrice < liquidationPrice
          then price_sweeps orderbook liquidationPrice
                 (price_sweep orderbook lowestPrice liquidationData ts)
          else Some ts)"

fun price_pass :: "hash list \<Rightarrow> TradingState \<Rightarrow> TradingState option" where
  "price_pass [] ts = Some ts"
| "price_pass (orderbook # rest) ts =
     (case price_sweeps orderbook (GetMediumPriceLastEpoch ts orderbook) ts of
        None \<Rightarrow> None
      | Some ts' \<Rightarrow> price_pass rest ts')"

text \<open>
  The inner \<^verbatim>\<open>for\<close> of the time-based pass: \<^verbatim>\<open>lowestTime\<close> and \<^verbatim>\<open>tradingIds\<close> are
  queried once, before the loop; the loop body only removes.
\<close>

definition time_sweep :: "hash \<Rightarrow> int \<Rightarrow> hash list \<Rightarrow> LendingState \<Rightarrow> LendingState" where
  "time_sweep lendingBook lowestTime tradingIds ls =
     foldl (\<lambda>ls1 tradingId. RemoveLiquidationData ls1 lendingBook (word_of_int lowestTime) tradingId)
       ls tradingIds"

partial_function (option) time_sweeps ::
  "hash \<Rightarrow> int \<Rightarrow> int \<Rightarrow> hash list \<Rightarrow> LendingState \<Rightarrow> LendingState option" where
  "time_sweeps lendingBook time lowestTime tradingIds ls =
     (if 0 < lowestTime \<and> lowestTime < time
      then time_sweeps lendingBook time lowestTime tradingIds
             (time_sweep lendingBook lowestTime tradingIds ls)
      else Some ls)"

fun time_pass :: "hash list \<Rightarrow> int \<Rightarrow> LendingState \<Rightarrow> LendingState option" where
  "time_pass [] time ls = Some ls"
| "time_pass (lendingBook # rest) time ls =
     (case GetLowestLiquidationTime ls lendingBook time of
        (lowestTime, tradingIds) \<Rightarrow>
          (case time_sweeps lendingBook time lowestTime tradingIds ls of
             None \<Rightarrow> None
           | Some ls' \<Rightarrow> time_pass rest time ls'))"

text \<open>
  \<^verbatim>\<open>ProcessLiquidationData\<close>: \<open>None\<close> is a call that never returns; otherwise the two
  states as the call leaves them. The Go maps of pairs are given as lists.
\<close>

definition ProcessLiquidationData ::
  "int \<Rightarrow> StateDB \<Rightarrow> TradingState \<Rightarrow> LendingState \<Rightarrow> (TradingState \<times> LendingState) option" where
  "ProcessLiquidationData time statedb tradingState lendingState =
     (case allTradingPairs statedb of
        Inl err \<Rightarrow> Some (tradingState, lendingState)
      | Inr allPairs \<Rightarrow>
          (case price_pass allPairs tradingState of
             None \<Rightarrow> None
           | Some tradingState' \<Rightarrow>
               (case time_pass (allLendingPairs statedb) time lendingState of
                  None \<Rightarrow> None
                | Some lendingState' \<Rightarrow> Some (tradingState', lendingState'))))"

section \<open>Example states\<close>

text \<open>Concrete records, stores and transactions for the instances below.\<close>

definition exItem :: "hash \<Rightarrow> string \<Rightarrow> int \<Rightarrow> int \<Rightarrow> Time \<Rightarrow> hash \<Rightarrow> int LendingItem" where
  "exItem h ty q f upd tx =
     \<lparr>Quantity = q, Interest = 5, Side = ''INVEST'', Type = ty, LendingToken = 1,
      CollateralToken = 2, FilledAmount = f, Status = LendingStatusOpen, Relayer = 3,
      Term = 86400, UserAddress = 4, Signature = None, Hash = h, TxHash = tx, Nonce = 0,
      CreatedAt = upd, UpdatedAt = upd, LendingId = 0\<rparr>"

definition exStore :: "(hash \<times> int LendingItem) list \<Rightarrow> Store" where
  "exStore its =
     \<lparr>itemsCollection = its, tradesCollection = [], PutErr = (\<lambda>h. None),
      DeleteErr = (\<lambda>h. None), CommitErr = None\<rparr>"

definition exTrade :: "hash \<Rightarrow> hash \<Rightarrow> hash \<Rightarrow> int \<Rightarrow> Time \<Rightarrow> LendingTrade" where
  "exTrade h tx maker amount tm =
     \<lparr>TradeHash = h, TradeTxHash = tx, Amount = amount, TakerOrderHash = 10,
      MakerOrderHash = maker, TradeCreatedAt = tm, TradeUpdatedAt = tm\<rparr>"

definition exTx :: "64 word \<Rightarrow> int \<Rightarrow> hash \<Rightarrow> OrderTransaction" where
  "exTx n v oh =
     \<lparr>txNonce = n, txQuantity = Some 0, txPrice = Some 1, txExchangeAddress = 3,
      txUserAddress = 4, txBaseToken = 1, txQuoteToken = 2, txStatus = LendingStatusNew,
      txSide = ''INVEST'', txType = Limit, txOrderHash = oh, txOrderID = 0,
      txV = v, txR = 11, txS = 12\<rparr>"

definition exBookHash :: "address \<Rightarrow> 64 word \<Rightarrow> hash" where
  "exBookHash token t = token"

text \<open>A commit that accepts every order and assigns the id 9.\<close>

definition exCommit :: "unit commit_fn" where
  "exCommit createdBlockTime coinbase w h book order =
     (([], None), w, h, order\<lparr>LendingId := 9\<rparr>)"

definition exStateDB :: StateDB where
  "exStateDB = \<lparr>allTradingPairs = Inr [], allLendingPairs = [7]\<rparr>"

definition exTradingState :: TradingState where
  "exTradingState = \<lparr>mediumPriceLastEpoch = (\<lambda>ob. 0), liquidationPrices = []\<rparr>"

definition exLendingState :: LendingState where
  "exLendingState = \<lparr>liquidationTimes = [(7, [(5, [42])])]\<rparr>"

text \<open>A commit that accepts every order, assigns the id 9 and adds one to the order's interest in place.\<close>

definition exCommitBump :: "unit commit_fn" where
  "exCommitBump createdBlockTime coinbase w h book order =
     (([], None), w,
      (case Interest order of Some a \<Rightarrow> h[a := h ! a + 1] | None \<Rightarrow> h),
      order\<lparr>LendingId := 9\<rparr>)"

text \<open>A commit that refuses every order with the given error, and a queue of two accounts.\<close>

definition exCommitErr :: "commit_error \<Rightarrow> unit commit_fn" where
  "exCommitErr e createdBlockTime coinbase w h book order = (([], Some e), w, h, order)"

definition exQueue :: txqueue where
  "exQueue = [(4, exTx 0 27 20, [exTx 1 27 21]), (5, exTx 3 27 22, [])]"

text \<open>A store whose bulk commit fails, and one that holds a taker stamped at time 200.\<close>

definition exLendingDown :: Lending where
  "exLendingDown =
     \<lparr>mongodb = (exStore [])\<lparr>CommitErr := Some ''bulk down''\<rparr>, lendingItemHistory = []\<rparr>"

definition exLendingNewer :: Lending where
  "exLendingNewer =
     \<lparr>mongodb = exStore [(10, exItem 10 Limit 100 0 200 1)], lendingItemHistory = []\<rparr>"

text \<open>
  A store that holds an open limit order (hash 10, quantity 100, stamped at time 50),
  synchronised once with a trade of 30 for transaction 77 at time 100, and then a
  second time with the same arguments and the counter the first call left.
\<close>

definition exLendingTaker :: Lending where
  "exLendingTaker =
     \<lparr>mongodb = exStore [(10, exItem 10 Limit 100 0 50 1)], lendingItemHistory = []\<rparr>"



text \<open>
  Three records stamped by transaction 77: the store refuses to delete the first and
  to write the third; the history bucket of 77 holds a snapshot of the third only.
\<close>

definition exLendingFailing :: Lending where
  "exLendingFailing =
     \<lparr>mongodb = (exStore [(10, exItem 10 Limit 100 30 100 77), (11, exItem 11 Limit 100 30 100 77),
                          (12, exItem 12 Limit 100 30 100 77)])
                  \<lparr>PutErr := (\<lambda>h. if h = 12 then Some ''timeout'' else None),
                   DeleteErr := (\<lambda>h. if h = 10 then Some ''disk full'' else None)\<rparr>,
      lendingItemHistory =
        [(77, [GetLendingItemHistoryKey 1 2 12 \<mapsto> snapshot (exItem 12 Limit 100 0 50 1)])]\<rparr>"

text \<open>
  A store that holds a resting maker (hash 20, stamped at time 50 by transaction 1).
  Transaction 77 carries two takers that both match it: the first call synchronises
  taker 10 with a trade of 30, the second taker 11 with a trade of 20; then the
  transaction is rolled back, after the first call alone and after both.
\<close>

definition exLendingMaker :: Lending where
  "exLendingMaker =
     \<lparr>mongodb = exStore [(20, exItem 20 Limit 100 0 50 1)], lendingItemHistory = []\<rparr>"

definition exSyncA :: "sync_error option \<times> Lending \<times> 64 word" where
  "exSyncA =
     SyncDataToSDKNode exLendingMaker (exItem 10 Limit 30 0 0 0) 77 100
       [exTrade 500 77 20 30 100] [] 0"




text \<open>
  Synchronisations for the statements about the stored status. A limit taker that the
  store holds filled (100 of 100) is synchronised without a trade. A market taker is
  synchronised with a trade of 30 against the maker 20 and is itself among the rejected
  items; the same without a rejected item; and a market taker whose one trade names
  the taker itself as its maker.
\<close>

definition exLendingFilled :: Lending where
  "exLendingFilled =
     \<lparr>mongodb = exStore [(10, exItem 10 Limit 100 100 50 1)], lendingItemHistory = []\<rparr>"

definition exSyncNoTrade :: "sync_error option \<times> Lending \<times> 64 word" where
  "exSyncNoTrade =
     SyncDataToSDKNode exLendingFilled (exItem 10 Limit 100 100 50 1) 77 100 [] [] 0"

definition exSyncRejected :: "sync_error option \<times> Lending \<times> 64 word" where
  "exSyncRejected =
     SyncDataToSDKNode exLendingMaker (exItem 11 Market 100 0 0 0) 78 100
       [exTrade 502 78 20 30 100] [exItem 11 Market 100 0 0 0] 0"

definition exSyncSelf :: "sync_error option \<times> Lending \<times> 64 word" where
  "exSyncSelf =
     SyncDataToSDKNode exLendingMaker (exItem 12 Market 100 0 0 0) 79 100
       [exTrade 503 79 12 30 100] [] 0"

definition exSyncMarket :: "sync_error option \<times> Lending \<times> 64 word" where
  "exSyncMarket =
     SyncDataToSDKNode exLendingMaker (exItem 11 Market 100 0 0 0) 78 100
       [exTrade 502 78 20 30 100] [] 0"

section \<open>Properties\<close>

lemmas status_defs =
  LendingStatusNew_def LendingStatusOpen_def LendingStatusPartialFilled_def
  LendingStatusFilled_def LendingStatusCancelled_def LendingStatusReject_def
  Limit_def Market_def

lemmas sync_defs =
  SyncDataToSDKNode_def takerLastState_def takerAtGate_def staleTaker_def sync_apply_def
  sync_rejects_def rejectUpdate_def makerUpdate_def takerMarketStatus_def takerApplyTrade_def
  UpdateLendingItemCache_def lru_Get_def lru_Add_def lru_Remove_def defaultCacheLimit_def
  GetLendingItemHistoryKey_def snapshot_def emptyHistoryItem_def
  GetObject_def PutObject_def PutTrade_def DeleteObject_def GetListLendingItemByHashes_def
  GetLendingItemByTxHash_def DeleteLendingTradeByTxHash_def CommitLendingBulk_def

lemmas ex_defs = exItem_def exStore_def exTrade_def exTx_def exBookHash_def exCommit_def
  exStateDB_def exTradingState_def exLendingState_def exLendingDown_def exLendingNewer_def exCommitBump_def exCommitErr_def exQueue_def exLendingTaker_def exLendingFailing_def exLendingMaker_def

subsection \<open>The liquidation scanner does not always return\<close>

lemma time_sweeps_diverges:
  assumes "0 < lowestTime" and "lowestTime < time"
  shows "time_sweeps lendingBook time lowestTime tradingIds ls = None"
proof (rule ccontr)
  assume "time_sweeps lendingBook time lowestTime tradingIds ls \<noteq> None"
  then obtain y where y: "time_sweeps lendingBook time lowestTime tradingIds ls = Some y"
    by auto
  have "\<not> (0 < lowestTime \<and> lowestTime < time)"
    by (rule time_sweeps.raw_induct
          [where P = "\<lambda>lb tm lt ids ls y. \<not> (0 < lt \<and> lt < tm)", OF _ y])
       (auto split: if_splits)
  with assms show False by simp
qed

text \<open>
  C3 (the code at the failing input). One lending book whose only liquidation time, 5,
  is positive and below the block time 10: the time-based pass enters its inner loop,
  which never queries the lowest time again, and \<^verbatim>\<open>ProcessLiquidationData\<close> does not
  return.
\<close>

theorem liquidation_time_pass_never_returns:
  "ProcessLiquidationData 10 exStateDB exTradingState exLendingState = None"
proof -
  have "time_sweeps 7 10 5 [42] exLendingState = None"
    by (rule time_sweeps_diverges) simp_all
  then show ?thesis
    by (simp add: ProcessLiquidationData_def GetLowestLiquidationTime_def ex_defs)
qed

subsection \<open>The admission loop does not always return\<close>

lemma process_loop_stuck:
  assumes "process_step cbt cb co bh st = Continue st"
  shows "process_loop cbt cb co bh st = None"
proof (rule ccontr)
  assume "process_loop cbt cb co bh st \<noteq> None"
  then obtain y where y: "process_loop cbt cb co bh st = Some y"
    by auto
  have "process_step cbt cb co bh st \<noteq> Continue st"
    by (rule process_loop.raw_induct
          [where P = "\<lambda>cbt cb co bh st y. process_step cbt cb co bh st \<noteq> Continue st", OF _ y])
       (auto split: pending_step.splits)
  with assms show False by simp
qed

lemma undecodable_V_stuck:
  assumes "Peek txs = Some tx" and "ParseInt8 (txV tx) = None"
  shows "process_loop cbt cb co bh (txs, lendingItems, matchingResults, w, h) = None"
  by (rule process_loop_stuck) (simp add: process_step_def assms)

text \<open>
  C5 (the code at the failing input). One account with one pending transaction whose
  signature V is 128, which does not fit a signed 8-bit integer: the loop takes the
  \<^verbatim>\<open>continue\<close> after \<^verbatim>\<open>strconv.ParseInt\<close> without a shift or a pop, peeks the same
  transaction again, and \<^verbatim>\<open>ProcessOrderPending\<close> does not return.
\<close>

theorem undecodable_V_never_returns:
  "ProcessOrderPending 0 0 exCommit exBookHash [(4, [exTx 0 128 20])] () [100, 5] = None"
proof -
  have "Peek (NewOrderTransactionByNonce [(4, [exTx 0 128 20])]) = Some (exTx 0 128 20)"
    by (simp add: Peek_def NewOrderTransactionByNonce_def)
  moreover have "ParseInt8 (txV (exTx 0 128 20)) = None"
    by (simp add: ParseInt8_def exTx_def)
  ultimately show ?thesis
    unfolding ProcessOrderPending_def by (rule undecodable_V_stuck)
qed

subsection \<open>The dirty counter\<close>

lemma takerAtGate_UpdatedAt:
  "UpdatedAt (takerAtGate db taker txHash t) =
     (case GetObject db (Hash taker) of
        Some origin \<Rightarrow> UpdatedAt origin | None \<Rightarrow> UpdatedAt taker)"
  by (simp add: takerAtGate_def Let_def split: option.splits)

text \<open>
  C10. With \<open>U\<close> the \<^verbatim>\<open>UpdatedAt\<close> of the stored taker record (of the given taker when
  none is stored), \<^verbatim>\<open>SyncDataToSDKNode\<close> leaves the counter one higher (in \<^verbatim>\<open>uint64\<close>
  arithmetic) exactly when the ordering gate lets the call pass. On the stale path the
  counter and the state are unchanged and the result is nil. Once the gate is passed
  the counter is one higher whatever the call returns, an error of the store included.
\<close>

theorem dirty_counter:
  assumes "SyncDataToSDKNode l taker txHash t trades rejects c = (e, l', c')"
    and "U = (case GetObject (mongodb l) (Hash taker) of
                Some origin \<Rightarrow> UpdatedAt origin | None \<Rightarrow> UpdatedAt taker)"
  shows "(c' = c + 1 \<longleftrightarrow> \<not> staleTaker t U c) \<and>
         (staleTaker t U c \<longrightarrow> c' = c \<and> e = None \<and> l' = l) \<and>
         (\<not> staleTaker t U c \<longrightarrow> c' = c + 1)"
  using assms
  by (auto simp add: SyncDataToSDKNode_def Let_def takerAtGate_UpdatedAt
        split: prod.splits if_splits)

theorem dirty_counter_witness:
  "fst (SyncDataToSDKNode exLendingDown (exItem 10 Limit 100 0 0 0) 77 100 [] [] 5)
     = Some (CommitBulkFailed 77 ''bulk down'') \<and>
   \<not> staleTaker 100 0 5 \<and>
   snd (snd (SyncDataToSDKNode exLendingDown (exItem 10 Limit 100 0 0 0) 77 100 [] [] 5)) = 6 \<and>
   staleTaker 100 200 5 \<and>
   SyncDataToSDKNode exLendingNewer (exItem 10 Limit 100 0 0 0) 77 100 [] [] 5
     = (None, exLendingNewer, 5)"
proof -
  let ?a = "SyncDataToSDKNode exLendingDown (exItem 10 Limit 100 0 0 0) 77 100 [] [] 5"
  let ?b = "SyncDataToSDKNode exLendingNewer (exItem 10 Limit 100 0 0 0) 77 100 [] [] 5"
  have a: "?a = (fst ?a, fst (snd ?a), snd (snd ?a))"
    and b: "?b = (fst ?b, fst (snd ?b), snd (snd ?b))"
    by simp_all
  have Ua: "(0::int) = (case GetObject (mongodb exLendingDown) (Hash (exItem 10 Limit 100 0 0 0)) of
                          Some origin \<Rightarrow> UpdatedAt origin
                        | None \<Rightarrow> UpdatedAt (exItem 10 Limit 100 0 0 0))"
    by (simp add: GetObject_def ex_defs)
  have Ub: "(200::int) = (case GetObject (mongodb exLendingNewer) (Hash (exItem 10 Limit 100 0 0 0)) of
                            Some origin \<Rightarrow> UpdatedAt origin
                          | None \<Rightarrow> UpdatedAt (exItem 10 Limit 100 0 0 0))"
    by (simp add: GetObject_def ex_defs)
  have pass: "\<not> staleTaker 100 0 5" and stale: "staleTaker 100 200 5"
    by (simp_all add: staleTaker_def)
  have e: "fst ?a = Some (CommitBulkFailed 77 ''bulk down'')"
    by (simp add: sync_defs ex_defs status_defs Let_def)
  from dirty_counter [OF a Ua] pass have ca: "snd (snd ?a) = 6"
    by simp
  from dirty_counter [OF b Ub] stale
  have "snd (snd ?b) = 5 \<and> fst ?b = None \<and> fst (snd ?b) = exLendingNewer"
    by simp
  then have "?b = (None, exLendingNewer, 5)"
    using b by simp
  with e pass ca stale show ?thesis
    by simp
qed

subsection \<open>Classification of the commit result\<close>

lemma cancel_same:
  "(if Status (order::'a LendingItem) = s then order\<lparr>Status := s\<rparr> else order) = order"
proof (cases "Status order = s")
  case True
  have "order\<lparr>Status := Status order\<rparr> = order" by simp
  with True show ?thesis by simp
next
  case False
  then show ?thesis by simp
qed

lemma process_step_commit:
  assumes "Peek txs = Some tx"
    and "ParseInt8 (txV tx) = Some n"
    and "decodeOrder h tx n = (order, h1)"
    and "snapshotOrder h1 order = Inr (originalOrder, h2)"
    and "CommitOrder cbt cb w h2 (bh (LendingToken order) (Term order)) order
           = ((rej, err), w', h3, order2)"
  shows "process_step cbt cb CommitOrder bh (txs, its, results, w, h) =
           Continue
             (case err of
                Some ErrNonceTooLow \<Rightarrow> (Shift txs, its, results, w', h3)
              | Some ErrNonceTooHigh \<Rightarrow> (Pop txs, its, results, w', h3)
              | Some (OtherError m) \<Rightarrow> (Shift txs, its, results, w', h3)
              | None \<Rightarrow>
                  (Shift txs, its @ [originalOrder\<lparr>LendingId := LendingId order2\<rparr>],
                   results(Hash order2 \<mapsto> \<lparr>Trades = [], Rejects = rej\<rparr>), w', h3))"
  using assms
  by (simp add: process_step_def Let_def cancel_same split: option.splits commit_error.splits)

lemma least_entry_mem: "least_entry e es \<in> set (e # es)"
  by (induction es arbitrary: e) auto

lemma queue_facts:
  assumes "txs = e # es" and "least_entry e es = (acc, tx, rest)"
  shows "Peek txs = Some tx"
    and "Pop txs = filter (\<lambda>x. fst x \<noteq> acc) txs"
    and "acc \<notin> fst ` set (Pop txs)"
    and "fst x \<noteq> acc \<Longrightarrow> x \<in> set (Pop txs) \<longleftrightarrow> x \<in> set txs"
    and "fst x \<noteq> acc \<Longrightarrow> x \<in> set (Shift txs) \<longleftrightarrow> x \<in> set txs"
    and "rest = t' # rest' \<Longrightarrow> (acc, t', rest') \<in> set (Shift txs)"
    and "rest = [] \<Longrightarrow> acc \<notin> fst ` set (Shift txs)"
proof -
  have mem: "(acc, tx, rest) \<in> set txs"
    using least_entry_mem [of e es] assms by simp
  show "Peek txs = Some tx" using assms by (simp add: Peek_def)
  show pop: "Pop txs = filter (\<lambda>x. fst x \<noteq> acc) txs" using assms by (simp add: Pop_def)
  show "acc \<notin> fst ` set (Pop txs)" unfolding pop by auto
  show "fst x \<noteq> acc \<Longrightarrow> x \<in> set (Pop txs) \<longleftrightarrow> x \<in> set txs" unfolding pop by auto
  show "fst x \<noteq> acc \<Longrightarrow> x \<in> set (Shift txs) \<longleftrightarrow> x \<in> set txs"
    using assms by (cases rest) (auto simp add: Shift_def)
  show "rest = t' # rest' \<Longrightarrow> (acc, t', rest') \<in> set (Shift txs)"
    using assms mem by (force simp add: Shift_def)
  show "rest = [] \<Longrightarrow> acc \<notin> fst ` set (Shift txs)"
    using assms by (auto simp add: Shift_def)
qed

text \<open>
  C6. Let the queue's next transaction \<open>tx\<close> belong to the entry of account \<open>acc\<close>, with
  \<open>rest\<close> the account's later transactions, let its V decode, and let \<^verbatim>\<open>CommitOrder\<close>
  return the error \<open>err\<close>. Then the round of the loop ends as follows. On
  \<^verbatim>\<open>ErrNonceTooLow\<close> and on any error other than the two nonce errors: with the shifted
  queue, the accepted list and the matching results unchanged. On \<^verbatim>\<open>ErrNonceTooHigh\<close>:
  with the popped queue, again with both unchanged. On nil only: with the shifted
  queue, the snapshot appended and the rejects recorded under the order's hash. The
  loop goes on from the state the round ends with. The popped queue has no entry of
  \<open>acc\<close> left; the shifted queue has the account's next transaction at the head of its
  entry (no entry when there is none); both keep the entries of every other account.
\<close>

theorem commit_result_classification:
  assumes "txs = e # es" and "least_entry e es = (acc, tx, rest)"
    and "ParseInt8 (txV tx) = Some n"
    and "decodeOrder h tx n = (order, h1)"
    and "snapshotOrder h1 order = Inr (originalOrder, h2)"
    and "CommitOrder cbt cb w h2 (bh (LendingToken order) (Term order)) order
           = ((rej, err), w', h3, order2)"
  shows "(err = Some ErrNonceTooLow \<longrightarrow>
            process_step cbt cb CommitOrder bh (txs, its, results, w, h) =
            Continue (Shift txs, its, results, w', h3)) \<and>
         (err = Some ErrNonceTooHigh \<longrightarrow>
            process_step cbt cb CommitOrder bh (txs, its, results, w, h) =
            Continue (Pop txs, its, results, w', h3)) \<and>
         (\<forall>m. err = Some (OtherError m) \<longrightarrow>
            process_step cbt cb CommitOrder bh (txs, its, results, w, h) =
            Continue (Shift txs, its, results, w', h3)) \<and>
         (err = None \<longrightarrow>
            process_step cbt cb CommitOrder bh (txs, its, results, w, h) =
            Continue
              (Shift txs, its @ [originalOrder\<lparr>LendingId := LendingId order2\<rparr>],
               results(Hash order2 \<mapsto> \<lparr>Trades = [], Rejects = rej\<rparr>), w', h3)) \<and>
         (\<forall>st'. process_step cbt cb CommitOrder bh (txs, its, results, w, h) = Continue st' \<longrightarrow>
            process_loop cbt cb CommitOrder bh (txs, its, results, w, h) =
            process_loop cbt cb CommitOrder bh st') \<and>
         acc \<notin> fst ` set (Pop txs) \<and>
         (\<forall>x. fst x \<noteq> acc \<longrightarrow> (x \<in> set (Pop txs) \<longleftrightarrow> x \<in> set txs)) \<and>
         (\<forall>x. fst x \<noteq> acc \<longrightarrow> (x \<in> set (Shift txs) \<longleftrightarrow> x \<in> set txs)) \<and>
         (\<forall>t' rest'. rest = t' # rest' \<longrightarrow> (acc, t', rest') \<in> set (Shift txs)) \<and>
         (rest = [] \<longrightarrow> acc \<notin> fst ` set (Shift txs))"
proof -
  note q = queue_facts [OF assms(1,2)]
  have step: "process_step cbt cb CommitOrder bh (txs, its, results, w, h) =
           Continue
             (case err of
                Some ErrNonceTooLow \<Rightarrow> (Shift txs, its, results, w', h3)
              | Some ErrNonceTooHigh \<Rightarrow> (Pop txs, its, results, w', h3)
              | Some (OtherError m) \<Rightarrow> (Shift txs, its, results, w', h3)
              | None \<Rightarrow>
                  (Shift txs, its @ [originalOrder\<lparr>LendingId := LendingId order2\<rparr>],
                   results(Hash order2 \<mapsto> \<lparr>Trades = [], Rejects = rej\<rparr>), w', h3))"
    by (rule process_step_commit [where CommitOrder = CommitOrder and bh = bh, OF q(1) assms(3-6)])
  have "err = Some ErrNonceTooLow \<longrightarrow>
            process_step cbt cb CommitOrder bh (txs, its, results, w, h) =
            Continue (Shift txs, its, results, w', h3)"
    using step by simp
  moreover have "err = Some ErrNonceTooHigh \<longrightarrow>
            process_step cbt cb CommitOrder bh (txs, its, results, w, h) =
            Continue (Pop txs, its, results, w', h3)"
    using step by simp
  moreover have "\<forall>m. err = Some (OtherError m) \<longrightarrow>
            process_step cbt cb CommitOrder bh (txs, its, results, w, h) =
            Continue (Shift txs, its, results, w', h3)"
    using step by simp
  moreover have "err = None \<longrightarrow>
            process_step cbt cb CommitOrder bh (txs, its, results, w, h) =
            Continue
              (Shift txs, its @ [originalOrder\<lparr>LendingId := LendingId order2\<rparr>],
               results(Hash order2 \<mapsto> \<lparr>Trades = [], Rejects = rej\<rparr>), w', h3)"
    using step by simp
  moreover have "\<forall>st'. process_step cbt cb CommitOrder bh (txs, its, results, w, h) = Continue st' \<longrightarrow>
            process_loop cbt cb CommitOrder bh (txs, its, results, w, h) =
            process_loop cbt cb CommitOrder bh st'"
    by (subst process_loop.simps) simp
  ultimately show ?thesis
    using q(3-7) by blast
qed

theorem commit_result_classification_witness:
  "process_step 0 0 (exCommitErr ErrNonceTooLow) exBookHash (exQueue, [], Map.empty, (), [100, 5]) =
   Continue ([(4, exTx 1 27 21, []), (5, exTx 3 27 22, [])], [], Map.empty, (), [100, 5, 0, 100]) \<and>
   process_step 0 0 (exCommitErr ErrNonceTooHigh) exBookHash (exQueue, [], Map.empty, (), [100, 5]) =
   Continue ([(5, exTx 3 27 22, [])], [], Map.empty, (), [100, 5, 0, 100]) \<and>
   process_step 0 0 (exCommitErr (OtherError ''full'')) exBookHash (exQueue, [], Map.empty, (), [100, 5]) =
   Continue ([(4, exTx 1 27 21, []), (5, exTx 3 27 22, [])], [], Map.empty, (), [100, 5, 0, 100]) \<and>
   process_step 0 0 exCommit exBookHash (exQueue, [], Map.empty, (), [100, 5]) =
   Continue
     ([(4, exTx 1 27 21, []), (5, exTx 3 27 22, [])],
      [(fst (decodeOrder [100, 5] (exTx 0 27 20) 27))\<lparr>Quantity := Some 3, LendingId := 9\<rparr>],
      [20 \<mapsto> \<lparr>Trades = [], Rejects = []\<rparr>], (), [100, 5, 0, 100]) \<and>
   process_loop 0 0 (exCommitErr ErrNonceTooHigh) exBookHash (exQueue, [], Map.empty, (), [100, 5]) =
   Some (Inr ([], Map.empty, (), [100, 5, 0, 100, 3, 100]))"
proof -
  let ?tx = "exTx 0 27 20"
  let ?o = "fst (decodeOrder [100, 5] ?tx 27)"
  have a1: "exQueue = (4, ?tx, [exTx 1 27 21]) # [(5, exTx 3 27 22, [])]"
    by (simp add: exQueue_def)
  have a2: "least_entry (4, ?tx, [exTx 1 27 21]) [(5, exTx 3 27 22, [])]
              = (4, ?tx, [exTx 1 27 21])"
    by (simp add: exTx_def)
  have a3: "ParseInt8 (txV ?tx) = Some 27"
    by (simp add: ParseInt8_def exTx_def)
  have a4: "decodeOrder [100, 5] ?tx 27 = (?o, [100, 5, 0])"
    by (simp add: decodeOrder_def NewInt_def exTx_def)
  have a5: "snapshotOrder [100, 5, 0] ?o = Inr (?o\<lparr>Quantity := Some 3\<rparr>, [100, 5, 0, 100])"
    by (simp add: snapshotOrder_def CloneBigInt_def deref_def NewInt_def decodeOrder_def exTx_def)
  have a6: "exCommitErr e 0 0 () [100, 5, 0, 100] (exBookHash (LendingToken ?o) (Term ?o)) ?o
              = (([], Some e), (), [100, 5, 0, 100], ?o)" for e
    by (simp add: exCommitErr_def)
  have a7: "exCommit 0 0 () [100, 5, 0, 100] (exBookHash (LendingToken ?o) (Term ?o)) ?o
              = (([], None), (), [100, 5, 0, 100], ?o\<lparr>LendingId := 9\<rparr>)"
    by (simp add: exCommit_def)
  have sh: "Shift exQueue = [(4, exTx 1 27 21, []), (5, exTx 3 27 22, [])]"
    and po: "Pop exQueue = [(5, exTx 3 27 22, [])]"
    by (simp_all add: Shift_def Pop_def exQueue_def exTx_def)
  have hs: "Hash (?o\<lparr>LendingId := 9\<rparr>) = 20" "LendingId (?o\<lparr>LendingId := 9\<rparr>) = 9"
    by (simp_all add: decodeOrder_def NewInt_def exTx_def)
  note low = commit_result_classification
    [where CommitOrder = "exCommitErr ErrNonceTooLow" and bh = exBookHash and its = "[]"
       and results = Map.empty, OF a1 a2 a3 a4 a5 a6]
  note high = commit_result_classification
    [where CommitOrder = "exCommitErr ErrNonceTooHigh" and bh = exBookHash and its = "[]"
       and results = Map.empty, OF a1 a2 a3 a4 a5 a6]
  note other = commit_result_classification
    [where CommitOrder = "exCommitErr (OtherError ''full'')" and bh = exBookHash and its = "[]"
       and results = Map.empty, OF a1 a2 a3 a4 a5 a6]
  note ok = commit_result_classification
    [where CommitOrder = exCommit and bh = exBookHash and its = "[]"
       and results = Map.empty, OF a1 a2 a3 a4 a5 a7]
  let ?tx3 = "exTx 3 27 22"
  let ?o3 = "fst (decodeOrder [100, 5, 0, 100] ?tx3 27)"
  have b1: "Peek [(5, ?tx3, [])] = Some ?tx3" by (simp add: Peek_def)
  have b3: "ParseInt8 (txV ?tx3) = Some 27"
    by (simp add: ParseInt8_def exTx_def)
  have b4: "decodeOrder [100, 5, 0, 100] ?tx3 27 = (?o3, [100, 5, 0, 100, 3])"
    by (simp add: decodeOrder_def NewInt_def exTx_def)
  have b5: "snapshotOrder [100, 5, 0, 100, 3] ?o3
              = Inr (?o3\<lparr>Quantity := Some 5\<rparr>, [100, 5, 0, 100, 3, 100])"
    by (simp add: snapshotOrder_def CloneBigInt_def deref_def NewInt_def decodeOrder_def exTx_def)
  have b6: "exCommitErr e 0 0 () [100, 5, 0, 100, 3, 100] (exBookHash (LendingToken ?o3) (Term ?o3)) ?o3
              = (([], Some e), (), [100, 5, 0, 100, 3, 100], ?o3)" for e
    by (simp add: exCommitErr_def)
  have s2: "process_step 0 0 (exCommitErr ErrNonceTooHigh) exBookHash
              ([(5, ?tx3, [])], [], Map.empty, (), [100, 5, 0, 100])
            = Continue ([], [], Map.empty, (), [100, 5, 0, 100, 3, 100])"
    using process_step_commit [where CommitOrder = "exCommitErr ErrNonceTooHigh" and bh = exBookHash
        and its = "[]" and results = Map.empty, OF b1 b3 b4 b5 b6]
    by (simp add: Pop_def)
  have s3: "process_step 0 0 (exCommitErr ErrNonceTooHigh) exBookHash
              ([], [], Map.empty, (), [100, 5, 0, 100, 3, 100])
            = Finished ([], Map.empty, (), [100, 5, 0, 100, 3, 100])"
    by (simp add: process_step_def Peek_def)
  have l3: "process_loop 0 0 (exCommitErr ErrNonceTooHigh) exBookHash
              ([], [], Map.empty, (), [100, 5, 0, 100, 3, 100])
            = Some (Inr ([], Map.empty, (), [100, 5, 0, 100, 3, 100]))"
    by (subst process_loop.simps) (simp add: s3)
  have l2: "process_loop 0 0 (exCommitErr ErrNonceTooHigh) exBookHash
              ([(5, ?tx3, [])], [], Map.empty, (), [100, 5, 0, 100])
            = Some (Inr ([], Map.empty, (), [100, 5, 0, 100, 3, 100]))"
    by (subst process_loop.simps) (simp add: s2 l3)
  show ?thesis
    using low high other ok l2 by (simp add: sh po hs)
qed

subsection \<open>The snapshot of an admitted order\<close>






subsection \<open>Replaying a synchronisation\<close>

lemma mongodb_UpdateLendingItemCache [simp]:
  "mongodb (UpdateLendingItemCache l lt ct h tx s) = mongodb l"
  by (simp add: UpdateLendingItemCache_def Let_def split: prod.splits)

lemma sync_trades_frame:
  assumes "sync_trades t trs (db, dirty, hs, ut) = (e, (db', dirty', hs', ut'))"
  shows "itemsCollection db' = itemsCollection db \<and> PutErr db' = PutErr db \<and>
         DeleteErr db' = DeleteErr db \<and> CommitErr db' = CommitErr db \<and>
         Hash ut' = Hash ut \<and> LendingToken ut' = LendingToken ut \<and>
         CollateralToken ut' = CollateralToken ut \<and> UpdatedAt ut' = UpdatedAt ut \<and>
         TxHash ut' = TxHash ut"
  using assms
proof (induction trs arbitrary: db dirty hs ut)
  case Nil
  then show ?case by simp
next
  case (Cons tr trs)
  then show ?case
    by (auto simp add: Let_def PutTrade_def takerApplyTrade_def
          split: prod.splits option.splits if_splits)
qed



lemma UpdatedAt_makerUpdate [simp]: "UpdatedAt (makerUpdate tx t a m) = t"
  by (simp add: makerUpdate_def Let_def)

lemma UpdatedAt_rejectUpdate [simp]: "UpdatedAt (rejectUpdate tx t d r) = t"
  by (simp add: rejectUpdate_def Let_def split: option.splits)





lemma takerMarketStatus_fields [simp]:
  "Hash (takerMarketStatus u) = Hash u" "UpdatedAt (takerMarketStatus u) = UpdatedAt u"
  "LendingToken (takerMarketStatus u) = LendingToken u"
  "CollateralToken (takerMarketStatus u) = CollateralToken u"
  "TxHash (takerMarketStatus u) = TxHash u"
  by (simp_all add: takerMarketStatus_def)



lemma Hash_takerAtGate:
  assumes "\<forall>k v. map_of (itemsCollection db) k = Some v \<longrightarrow> Hash v = k"
  shows "Hash (takerAtGate db taker tx t) = Hash taker"
  using assms by (auto simp add: takerAtGate_def GetObject_def Let_def split: option.splits)





subsection \<open>Store errors during a rollback\<close>

lemmas rollback_defs = RollbackLendingItems_def rollback_item_def rollback_remove_def

text \<open>
  C4 as stated fails. Rolling back transaction 77 on a store that refuses to delete
  record 10 and to write record 12: the call returns normally, both errors are in the
  error log only, record 11 (after the first failure) is deleted, and the records 10
  and 12 are still in the store. \<^verbatim>\<open>RollbackLendingItems\<close> has no result through which
  an error could reach its caller.
\<close>

theorem rollback_swallows_errors_counterexample:
  "fst (RollbackLendingItems exLendingFailing 77) = False \<and>
   snd (snd (RollbackLendingItems exLendingFailing 77)) =
     [(''SDKNode: failed to remove reorg lendingItem'', ''disk full''),
      (''SDKNode: failed to update reorg item'', ''timeout'')] \<and>
   map fst (itemsCollection (mongodb (fst (snd (RollbackLendingItems exLendingFailing 77)))))
     = [10, 12]"
  by (simp add: rollback_defs sync_defs ex_defs status_defs Let_def)

lemma rollback_round_delete:
  assumes "DeleteErr (mongodb l) (Hash item) = Some e"
    and "bucketAt l txhash (GetLendingItemHistoryKey (LendingToken item) (CollateralToken item)
           (Hash item)) \<in> {None, Some emptyHistoryItem}"
  shows "rollback_item txhash item (l, lg) =
           (False, l\<lparr>lendingItemHistory := snd (lru_Get (lendingItemHistory l) txhash)\<rparr>,
            lg @ [(''SDKNode: failed to remove reorg lendingItem'', e)])"
  using assms
  by (auto simp add: rollback_item_def rollback_remove_def DeleteObject_def bucketAt_def
        lru_Get_def Let_def split: option.splits)

lemma rollback_round_put:
  assumes "PutErr (mongodb l) (Hash item) = Some e"
    and "bucketAt l txhash (GetLendingItemHistoryKey (LendingToken item) (CollateralToken item)
           (Hash item)) = Some v"
    and "v \<noteq> emptyHistoryItem" and "HFilledAmount v \<noteq> None"
  shows "rollback_item txhash item (l, lg) =
           (False, l\<lparr>lendingItemHistory := snd (lru_Get (lendingItemHistory l) txhash)\<rparr>,
            lg @ [(''SDKNode: failed to update reorg item'', e)])"
  using assms
  by (auto simp add: rollback_item_def PutObject_def bucketAt_def
        lru_Get_def Let_def split: option.splits)

lemma rollback_round_frame:
  assumes "rollback_item txhash item (l, lg) = (p, l1, lg1)"
  shows "bucketAt l1 txhash = bucketAt l txhash"
    and "PutErr (mongodb l1) = PutErr (mongodb l)"
    and "DeleteErr (mongodb l1) = DeleteErr (mongodb l)"
    and "set lg \<subseteq> set lg1"
  using assms
  by (auto simp add: rollback_item_def rollback_remove_def DeleteObject_def PutObject_def
        bucketAt_def lru_Get_def Let_def split: option.splits if_splits)

lemma rollback_items_Cons_False:
  assumes "rollback_items txhash (x # xs) st = (False, st2)"
  shows "\<exists>st1. rollback_item txhash x st = (False, st1) \<and> rollback_items txhash xs st1 = (False, st2)"
proof -
  obtain p st1 where r: "rollback_item txhash x st = (p, st1)"
    by (cases "rollback_item txhash x st") auto
  with assms show ?thesis by (cases p) simp_all
qed

lemma rollback_items_logged:
  assumes "rollback_items txhash its (l, lg) = (False, l2, lg2)"
  shows "set lg \<subseteq> set lg2"
    and "item \<in> set its \<Longrightarrow> DeleteErr (mongodb l) (Hash item) = Some e \<Longrightarrow>
         bucketAt l txhash (GetLendingItemHistoryKey (LendingToken item) (CollateralToken item)
           (Hash item)) \<in> {None, Some emptyHistoryItem} \<Longrightarrow>
         (''SDKNode: failed to remove reorg lendingItem'', e) \<in> set lg2"
    and "item \<in> set its \<Longrightarrow> PutErr (mongodb l) (Hash item) = Some e \<Longrightarrow>
         bucketAt l txhash (GetLendingItemHistoryKey (LendingToken item) (CollateralToken item)
           (Hash item)) = Some v \<Longrightarrow> v \<noteq> emptyHistoryItem \<Longrightarrow> HFilledAmount v \<noteq> None \<Longrightarrow>
         (''SDKNode: failed to update reorg item'', e) \<in> set lg2"
  using assms
proof (induction its arbitrary: l lg)
  case Nil
  { case 1 then show ?case by simp }
  { case 2 then show ?case by simp }
  { case 3 then show ?case by simp }
next
  case (Cons x xs)
  { case 1
    from rollback_items_Cons_False [OF 1] obtain l1 lg1 where
      r: "rollback_item txhash x (l, lg) = (False, l1, lg1)"
      and rest: "rollback_items txhash xs (l1, lg1) = (False, l2, lg2)"
      by auto
    note fr = rollback_round_frame [OF r]
    from Cons.IH(1) [OF rest] fr(4) show ?case by blast }
  { case 2
    from rollback_items_Cons_False [OF 2(4)] obtain l1 lg1 where
      r: "rollback_item txhash x (l, lg) = (False, l1, lg1)"
      and rest: "rollback_items txhash xs (l1, lg1) = (False, l2, lg2)"
      by auto
    note fr = rollback_round_frame [OF r]
    show ?case
    proof (cases "item = x")
      case True
      with rollback_round_delete [OF 2(2,3), of lg] r
      have "(''SDKNode: failed to remove reorg lendingItem'', e) \<in> set lg1" by simp
      with Cons.IH(1) [OF rest] show ?thesis by blast
    next
      case False
      with 2(1) have "item \<in> set xs" by simp
      from Cons.IH(2) [OF this _ _ rest] 2(2,3) fr show ?thesis by simp
    qed }
  { case 3
    from rollback_items_Cons_False [OF 3(6)] obtain l1 lg1 where
      r: "rollback_item txhash x (l, lg) = (False, l1, lg1)"
      and rest: "rollback_items txhash xs (l1, lg1) = (False, l2, lg2)"
      by auto
    note fr = rollback_round_frame [OF r]
    show ?case
    proof (cases "item = x")
      case True
      with rollback_round_put [OF 3(2,3,4,5), of lg] r
      have "(''SDKNode: failed to update reorg item'', e) \<in> set lg1" by simp
      with Cons.IH(1) [OF rest] show ?thesis by blast
    next
      case False
      with 3(1) have "item \<in> set xs" by simp
      from Cons.IH(3) [OF this _ _ _ _ rest] 3(2,3,4,5) fr show ?thesis by simp
    qed }
qed

lemma RollbackLendingItems_log:
  assumes "RollbackLendingItems l txhash = (False, l2, lg2)"
  shows "\<exists>l1. rollback_items txhash (GetLendingItemByTxHash (mongodb l) txhash) (l, [])
           = (False, l1, lg2)"
  using assms
  by (auto simp add: RollbackLendingItems_def split: prod.splits bool.splits if_splits)

text \<open>
  C4 as amended. Let \<open>entry\<close> be what the history bucket of the transaction holds for a
  record. When it holds nothing or the zero struct, the round of the rollback loop on
  the record attempts the delete; when the store refuses it with the error \<open>e\<close>, the
  round leaves the store as it is and appends the line
  \<^verbatim>\<open>SDKNode: failed to remove reorg lendingItem\<close> with \<open>e\<close> to the error log. When it
  holds a snapshot with a filled amount, the round attempts the write; when the store
  refuses it with \<open>e\<close>, the round leaves the store as it is and appends the line
  \<^verbatim>\<open>SDKNode: failed to update reorg item\<close> with \<open>e\<close>. In both cases the loop goes on with
  the next record, and for every record stamped with the transaction the line is in the
  log that a call of \<^verbatim>\<open>RollbackLendingItems\<close> which returns leaves behind. The error is
  logged; the function has no result through which it could be returned.
\<close>

theorem rollback_store_error_logged:
  assumes "entry = bucketAt l txhash (GetLendingItemHistoryKey (LendingToken item)
                     (CollateralToken item) (Hash item))"
    and "l0 = l\<lparr>lendingItemHistory := snd (lru_Get (lendingItemHistory l) txhash)\<rparr>"
  shows "(DeleteErr (mongodb l) (Hash item) = Some e \<and> entry \<in> {None, Some emptyHistoryItem} \<longrightarrow>
            rollback_item txhash item (l, lg) =
              (False, l0, lg @ [(''SDKNode: failed to remove reorg lendingItem'', e)]) \<and>
            (\<forall>l2 lg2. RollbackLendingItems l txhash = (False, l2, lg2) \<and>
                 item \<in> set (GetLendingItemByTxHash (mongodb l) txhash) \<longrightarrow>
               (''SDKNode: failed to remove reorg lendingItem'', e) \<in> set lg2)) \<and>
         (PutErr (mongodb l) (Hash item) = Some e \<and> entry = Some v \<and> v \<noteq> emptyHistoryItem \<and>
          HFilledAmount v \<noteq> None \<longrightarrow>
            rollback_item txhash item (l, lg) =
              (False, l0, lg @ [(''SDKNode: failed to update reorg item'', e)]) \<and>
            (\<forall>l2 lg2. RollbackLendingItems l txhash = (False, l2, lg2) \<and>
                 item \<in> set (GetLendingItemByTxHash (mongodb l) txhash) \<longrightarrow>
               (''SDKNode: failed to update reorg item'', e) \<in> set lg2)) \<and>
         mongodb l0 = mongodb l \<and>
         (\<forall>st'. rollback_item txhash item (l, lg) = (False, st') \<longrightarrow>
            rollback_items txhash (item # rest) (l, lg) = rollback_items txhash rest st')"
proof -
  have a: "rollback_item txhash item (l, lg) =
              (False, l0, lg @ [(''SDKNode: failed to remove reorg lendingItem'', e)])"
    if "DeleteErr (mongodb l) (Hash item) = Some e" "entry \<in> {None, Some emptyHistoryItem}"
    using rollback_round_delete [of l item e txhash lg] that assms by simp
  have b: "(''SDKNode: failed to remove reorg lendingItem'', e) \<in> set lg2"
    if "DeleteErr (mongodb l) (Hash item) = Some e" "entry \<in> {None, Some emptyHistoryItem}"
      "RollbackLendingItems l txhash = (False, l2, lg2)"
      "item \<in> set (GetLendingItemByTxHash (mongodb l) txhash)" for l2 lg2
  proof -
    from RollbackLendingItems_log [OF that(3)] obtain l1 where
      r: "rollback_items txhash (GetLendingItemByTxHash (mongodb l) txhash) (l, []) = (False, l1, lg2)"
      by blast
    from rollback_items_logged(2) [OF r that(4) that(1)] that(2) assms(1) show ?thesis by simp
  qed
  have c: "rollback_item txhash item (l, lg) =
              (False, l0, lg @ [(''SDKNode: failed to update reorg item'', e)])"
    if "PutErr (mongodb l) (Hash item) = Some e" "entry = Some v" "v \<noteq> emptyHistoryItem"
      "HFilledAmount v \<noteq> None"
    using rollback_round_put [of l item e txhash v lg] that assms by simp
  have d: "(''SDKNode: failed to update reorg item'', e) \<in> set lg2"
    if "PutErr (mongodb l) (Hash item) = Some e" "entry = Some v" "v \<noteq> emptyHistoryItem"
      "HFilledAmount v \<noteq> None"
      "RollbackLendingItems l txhash = (False, l2, lg2)"
      "item \<in> set (GetLendingItemByTxHash (mongodb l) txhash)" for l2 lg2
  proof -
    from RollbackLendingItems_log [OF that(5)] obtain l1 where
      r: "rollback_items txhash (GetLendingItemByTxHash (mongodb l) txhash) (l, []) = (False, l1, lg2)"
      by blast
    from rollback_items_logged(3) [OF r that(6) that(1) _ that(3,4)] that(2) assms(1)
    show ?thesis by simp
  qed
  have f: "mongodb l0 = mongodb l" using assms(2) by simp
  have g: "\<forall>st'. rollback_item txhash item (l, lg) = (False, st') \<longrightarrow>
            rollback_items txhash (item # rest) (l, lg) = rollback_items txhash rest st'"
    by simp
  from a b c d f g show ?thesis by blast
qed

theorem rollback_store_error_logged_witness:
  "DeleteErr (mongodb exLendingFailing) (Hash (exItem 10 Limit 100 30 100 77)) = Some ''disk full'' \<and>
   bucketAt exLendingFailing 77 (GetLendingItemHistoryKey 1 2 10) = None \<and>
   rollback_item 77 (exItem 10 Limit 100 30 100 77) (exLendingFailing, []) =
     (False, exLendingFailing, [(''SDKNode: failed to remove reorg lendingItem'', ''disk full'')]) \<and>
   (''SDKNode: failed to remove reorg lendingItem'', ''disk full'')
     \<in> set (snd (snd (RollbackLendingItems exLendingFailing 77))) \<and>
   PutErr (mongodb exLendingFailing) (Hash (exItem 12 Limit 100 30 100 77)) = Some ''timeout'' \<and>
   bucketAt exLendingFailing 77 (GetLendingItemHistoryKey 1 2 12)
     = Some (snapshot (exItem 12 Limit 100 0 50 1)) \<and>
   rollback_item 77 (exItem 12 Limit 100 30 100 77) (exLendingFailing, []) =
     (False, exLendingFailing, [(''SDKNode: failed to update reorg item'', ''timeout'')]) \<and>
   (''SDKNode: failed to update reorg item'', ''timeout'')
     \<in> set (snd (snd (RollbackLendingItems exLendingFailing 77)))"
proof -
  let ?l = exLendingFailing
  let ?a = "exItem 10 Limit 100 30 100 77"
  let ?c = "exItem 12 Limit 100 30 100 77"
  let ?v = "snapshot (exItem 12 Limit 100 0 50 1)"
  let ?R = "RollbackLendingItems ?l 77"
  have l0: "?l = ?l\<lparr>lendingItemHistory := snd (lru_Get (lendingItemHistory ?l) 77)\<rparr>"
    by (simp add: exLendingFailing_def lru_Get_def)
  have ka: "None = bucketAt ?l 77 (GetLendingItemHistoryKey (LendingToken ?a) (CollateralToken ?a) (Hash ?a))"
    and kc: "Some ?v = bucketAt ?l 77 (GetLendingItemHistoryKey (LendingToken ?c) (CollateralToken ?c) (Hash ?c))"
    by (simp_all add: bucketAt_def exLendingFailing_def exItem_def GetLendingItemHistoryKey_def)
  have da: "DeleteErr (mongodb ?l) (Hash ?a) = Some ''disk full''"
    and pc: "PutErr (mongodb ?l) (Hash ?c) = Some ''timeout''"
    by (simp_all add: ex_defs)
  have v: "?v \<noteq> emptyHistoryItem" "HFilledAmount ?v \<noteq> None"
    by (simp_all add: snapshot_def emptyHistoryItem_def exItem_def status_defs)
  have ma: "?a \<in> set (GetLendingItemByTxHash (mongodb ?l) 77)"
    and mc: "?c \<in> set (GetLendingItemByTxHash (mongodb ?l) 77)"
    by (simp_all add: GetLendingItemByTxHash_def ex_defs)
  have R: "?R = (False, fst (snd ?R), snd (snd ?R))"
    by (simp add: rollback_defs sync_defs ex_defs status_defs Let_def)
  have ks: "GetLendingItemHistoryKey (LendingToken ?a) (CollateralToken ?a) (Hash ?a)
              = GetLendingItemHistoryKey 1 2 10"
    "GetLendingItemHistoryKey (LendingToken ?c) (CollateralToken ?c) (Hash ?c)
              = GetLendingItemHistoryKey 1 2 12"
    by (simp_all add: exItem_def)
  note ta = rollback_store_error_logged [OF ka l0, where e = "''disk full''" and lg = "[]"]
  note tc = rollback_store_error_logged
    [OF kc l0, where e = "''timeout''" and v = ?v and lg = "[]"]
  have A: "rollback_item 77 ?a (?l, []) =
             (False, ?l, [(''SDKNode: failed to remove reorg lendingItem'', ''disk full'')])"
    using ta da by simp
  have "\<forall>l2 lg2. ?R = (False, l2, lg2) \<and> ?a \<in> set (GetLendingItemByTxHash (mongodb ?l) 77) \<longrightarrow>
          (''SDKNode: failed to remove reorg lendingItem'', ''disk full'') \<in> set lg2"
    using ta da by simp
  from this [rule_format, OF conjI [OF R ma]]
  have A': "(''SDKNode: failed to remove reorg lendingItem'', ''disk full'') \<in> set (snd (snd ?R))" .
  have C: "rollback_item 77 ?c (?l, []) =
             (False, ?l, [(''SDKNode: failed to update reorg item'', ''timeout'')])"
    using tc pc v by simp
  have "\<forall>l2 lg2. ?R = (False, l2, lg2) \<and> ?c \<in> set (GetLendingItemByTxHash (mongodb ?l) 77) \<longrightarrow>
          (''SDKNode: failed to update reorg item'', ''timeout'') \<in> set lg2"
    using tc pc v by simp
  from this [rule_format, OF conjI [OF R mc]]
  have C': "(''SDKNode: failed to update reorg item'', ''timeout'') \<in> set (snd (snd ?R))" .
  show ?thesis
    using A A' C C' da pc ka kc unfolding ks by simp
qed

subsection \<open>Rollback after a synchronisation\<close>



lemma bucketAt_mongodb_update [simp]: "bucketAt (l\<lparr>mongodb := db\<rparr>) T = bucketAt l T"
  by (simp add: bucketAt_def)




lemma makerUpdate_fields [simp]:
  "TxHash (makerUpdate T t a m) = T" "Hash (makerUpdate T t a m) = Hash m"
  "LendingToken (makerUpdate T t a m) = LendingToken m"
  "CollateralToken (makerUpdate T t a m) = CollateralToken m"
  by (simp_all add: makerUpdate_def Let_def)

lemma rejectUpdate_fields [simp]:
  "TxHash (rejectUpdate T t d r) = T" "Hash (rejectUpdate T t d r) = Hash r"
  "LendingToken (rejectUpdate T t d r) = LendingToken r"
  "CollateralToken (rejectUpdate T t d r) = CollateralToken r"
  by (simp_all add: rejectUpdate_def Let_def split: option.splits)


























subsection \<open>The stored status\<close>

text \<open>
  C7 as stated fails. A limit taker that the store holds with \<^verbatim>\<open>FilledAmount\<close> 100 of
  \<^verbatim>\<open>Quantity\<close> 100 and that is synchronised without a trade is stored Open: the status
  is recomputed only when a trade is folded in, and before that it is set to Open (or
  Cancelled). A market taker that is filled with 30 and is among the rejected items is
  stored Rejected with \<^verbatim>\<open>FilledAmount\<close> 30: the rejection overwrites the recomputed
  status. Both calls return nil.
\<close>

theorem sync_stored_status_counterexample:
  "fst exSyncNoTrade = None \<and>
   map_option (\<lambda>r. (Type r, Quantity r, FilledAmount r, Status r))
     (GetObject (mongodb (fst (snd exSyncNoTrade))) 10)
     = Some (Limit, 100, 100, LendingStatusOpen) \<and>
   fst exSyncRejected = None \<and>
   map_option (\<lambda>r. (Type r, Quantity r, FilledAmount r, Status r))
     (GetObject (mongodb (fst (snd exSyncRejected))) 11)
     = Some (Market, 100, 30, LendingStatusReject) \<and>
   fst exSyncSelf = None \<and>
   map_option (\<lambda>r. (Type r, Quantity r, FilledAmount r, Status r))
     (GetObject (mongodb (fst (snd exSyncSelf))) 12)
     = Some (Market, 100, 60, LendingStatusPartialFilled) \<and>
   LendingStatusOpen \<noteq> LendingStatusFilled \<and> LendingStatusReject \<noteq> LendingStatusFilled \<and>
   LendingStatusPartialFilled \<noteq> LendingStatusFilled"
  by (simp add: exSyncNoTrade_def exSyncRejected_def exSyncSelf_def exLendingFilled_def
        sync_defs ex_defs status_defs Let_def)

text \<open>
  A market taker whose trade names the taker itself as its maker is written a second
  time by the loop over the makers, with the maker rule (here a write is seen by the
  reads that follow it).
\<close>

lemma self_trade_status:
  "fst exSyncSelf = None \<and>
   map_option (\<lambda>r. (Type r, Quantity r, FilledAmount r, Status r))
     (GetObject (mongodb (fst (snd exSyncSelf))) 12)
     = Some (Market, 100, 60, LendingStatusPartialFilled)"
  by (simp add: exSyncSelf_def sync_defs ex_defs status_defs Let_def)

lemma GetObject_PutObject_other:
  assumes "PutObject db k v = (e, db')" and "h \<noteq> k"
  shows "GetObject db' h = GetObject db h"
  using assms by (auto simp add: PutObject_def GetObject_def update_conv' split: option.splits)

lemma GetObject_PutObject_same:
  assumes "PutObject db k v = (None, db')"
  shows "GetObject db' k = Some v"
  using assms by (auto simp add: PutObject_def GetObject_def update_conv' split: option.splits)

lemma store_wf_PutObject:
  assumes "store_wf db" and "PutObject db (Hash v) v = (e, db')"
  shows "store_wf db'"
proof (cases "PutErr db (Hash v)")
  case None
  with assms(2) have db': "db' = db\<lparr>itemsCollection := AList.update (Hash v) v (itemsCollection db)\<rparr>"
    by (simp add: PutObject_def)
  from assms(1) have d: "distinct (map fst (itemsCollection db))"
    and k: "\<And>k w. map_of (itemsCollection db) k = Some w \<Longrightarrow> Hash w = k"
    by (simp_all add: store_wf_def)
  have "Hash w = k'" if "map_of (AList.update (Hash v) v (itemsCollection db)) k' = Some w" for k' w
    using that k [of k' w] by (simp add: update_conv' split: if_splits)
  with d show ?thesis
    unfolding store_wf_def db' by (simp add: distinct_update)
next
  case (Some err)
  with assms show ?thesis by (simp add: PutObject_def)
qed

lemma GetList_hashes:
  assumes "store_wf db" and "m \<in> set (GetListLendingItemByHashes db hs)"
  shows "Hash m \<in> set hs"
proof -
  from assms(2) obtain k where k: "(k, m) \<in> set (itemsCollection db)" "k \<in> set hs"
    by (auto simp add: GetListLendingItemByHashes_def)
  from assms(1) k(1) have "map_of (itemsCollection db) k = Some m"
    by (simp add: store_wf_def map_of_is_SomeI)
  with assms(1) have "Hash m = k" by (simp add: store_wf_def)
  with k(2) show ?thesis by simp
qed

lemma sync_makers_other:
  assumes "sync_makers T t dirty ms l = (e, l')" and "h \<notin> Hash ` set ms"
  shows "GetObject (mongodb l') h = GetObject (mongodb l) h"
  using assms
proof (induction ms arbitrary: l)
  case Nil
  then show ?case by simp
next
  case (Cons m ms)
  let ?l1 = "UpdateLendingItemCache l (LendingToken m) (CollateralToken m) (Hash m) T (snapshot m)"
  from Cons.prems(2) have hm: "h \<noteq> Hash m" and hms: "h \<notin> Hash ` set ms" by auto
  show ?case
  proof (cases "t < UpdatedAt m")
    case True
    with Cons.prems(1) have "sync_makers T t dirty ms l = (e, l')" by simp
    from Cons.IH [OF this hms] show ?thesis .
  next
    case False
    show ?thesis
    proof (cases "dirty (Hash m)")
      case None
      with False Cons.prems(1) show ?thesis by (auto simp add: Let_def)
    next
      case (Some a)
      obtain e1 db1 where put: "PutObject (mongodb ?l1) (Hash (makerUpdate T t a m))
                                  (makerUpdate T t a m) = (e1, db1)"
        by (cases "PutObject (mongodb ?l1) (Hash (makerUpdate T t a m)) (makerUpdate T t a m)") auto
      from GetObject_PutObject_other [OF put, of h] hm
      have g: "GetObject db1 h = GetObject (mongodb l) h" by simp
      show ?thesis
      proof (cases e1)
        case None
        with False Some put Cons.prems(1)
        have "sync_makers T t dirty ms (?l1\<lparr>mongodb := db1\<rparr>) = (e, l')"
          by (simp add: Let_def)
        from Cons.IH [OF this hms] g show ?thesis by simp
      next
        case (Some err)
        with False \<open>dirty (Hash m) = Some a\<close> put Cons.prems(1) g show ?thesis
          by (auto simp add: Let_def)
      qed
    qed
  qed
qed

lemma sync_makers_changed:
  assumes "sync_makers T t dirty ms l = (e, l')"
  shows "GetObject (mongodb l') h = GetObject (mongodb l) h \<or>
         (\<exists>a m. GetObject (mongodb l') h = Some (makerUpdate T t a m))"
  using assms
proof (induction ms arbitrary: l)
  case Nil
  then show ?case by simp
next
  case (Cons m ms)
  let ?l1 = "UpdateLendingItemCache l (LendingToken m) (CollateralToken m) (Hash m) T (snapshot m)"
  show ?case
  proof (cases "t < UpdatedAt m")
    case True
    with Cons.prems(1) have "sync_makers T t dirty ms l = (e, l')" by simp
    from Cons.IH [OF this] show ?thesis .
  next
    case False
    show ?thesis
    proof (cases "dirty (Hash m)")
      case None
      with False Cons.prems(1) show ?thesis by (auto simp add: Let_def)
    next
      case (Some a)
      let ?m' = "makerUpdate T t a m"
      obtain e1 db1 where put: "PutObject (mongodb ?l1) (Hash ?m') ?m' = (e1, db1)"
        by (cases "PutObject (mongodb ?l1) (Hash ?m') ?m'") auto
      have g: "GetObject db1 h = GetObject (mongodb l) h \<or> GetObject db1 h = Some ?m'"
        using put
        by (auto simp add: PutObject_def GetObject_def update_conv' split: option.splits)
      show ?thesis
      proof (cases e1)
        case None
        with False Some put Cons.prems(1)
        have "sync_makers T t dirty ms (?l1\<lparr>mongodb := db1\<rparr>) = (e, l')"
          by (simp add: Let_def)
        from Cons.IH [OF this] g show ?thesis by (simp, metis)
      next
        case (Some err)
        with False \<open>dirty (Hash m) = Some a\<close> put Cons.prems(1)
        have "l' = ?l1\<lparr>mongodb := db1\<rparr>" by (auto simp add: Let_def)
        with g show ?thesis by (simp, metis)
      qed
    qed
  qed
qed

lemma store_wf_sync_makers:
  assumes "sync_makers T t dirty ms l = (e, l')" and "store_wf (mongodb l)"
  shows "store_wf (mongodb l')"
  using assms
proof (induction ms arbitrary: l)
  case Nil
  then show ?case by simp
next
  case (Cons m ms)
  let ?l1 = "UpdateLendingItemCache l (LendingToken m) (CollateralToken m) (Hash m) T (snapshot m)"
  show ?case
  proof (cases "t < UpdatedAt m")
    case True
    with Cons.prems(1) have "sync_makers T t dirty ms l = (e, l')" by simp
    from Cons.IH [OF this Cons.prems(2)] show ?thesis .
  next
    case False
    show ?thesis
    proof (cases "dirty (Hash m)")
      case None
      with False Cons.prems show ?thesis by (auto simp add: Let_def)
    next
      case (Some a)
      let ?m' = "makerUpdate T t a m"
      obtain e1 db1 where put: "PutObject (mongodb ?l1) (Hash ?m') ?m' = (e1, db1)"
        by (cases "PutObject (mongodb ?l1) (Hash ?m') ?m'") auto
      from store_wf_PutObject [OF _ put] Cons.prems(2) have w: "store_wf db1" by simp
      show ?thesis
      proof (cases e1)
        case None
        with False Some put Cons.prems(1)
        have "sync_makers T t dirty ms (?l1\<lparr>mongodb := db1\<rparr>) = (e, l')"
          by (simp add: Let_def)
        from Cons.IH [OF this] w show ?thesis by simp
      next
        case (Some err)
        with False \<open>dirty (Hash m) = Some a\<close> put Cons.prems(1) w show ?thesis
          by (auto simp add: Let_def)
      qed
    qed
  qed
qed

lemma sync_rejected_other:
  assumes "sync_rejected T t dirty rs l = (e, l')" and "h \<notin> Hash ` set rs"
  shows "GetObject (mongodb l') h = GetObject (mongodb l) h"
  using assms
proof (induction rs arbitrary: l)
  case Nil
  then show ?case by simp
next
  case (Cons r rs)
  let ?l1 = "UpdateLendingItemCache l (LendingToken r) (CollateralToken r) (Hash r) T (snapshot r)"
  let ?r' = "rejectUpdate T t dirty r"
  from Cons.prems(2) have hr: "h \<noteq> Hash r" and hrs: "h \<notin> Hash ` set rs" by auto
  show ?case
  proof (cases "t < UpdatedAt r")
    case True
    with Cons.prems(1) have "sync_rejected T t dirty rs l = (e, l')" by simp
    from Cons.IH [OF this hrs] show ?thesis .
  next
    case False
    obtain e1 db1 where put: "PutObject (mongodb ?l1) (Hash ?r') ?r' = (e1, db1)"
      by (cases "PutObject (mongodb ?l1) (Hash ?r') ?r'") auto
    from GetObject_PutObject_other [OF put, of h] hr
    have g: "GetObject db1 h = GetObject (mongodb l) h" by simp
    show ?thesis
    proof (cases e1)
      case None
      with False put Cons.prems(1)
      have "sync_rejected T t dirty rs (?l1\<lparr>mongodb := db1\<rparr>) = (e, l')"
        by (simp add: Let_def)
      from Cons.IH [OF this hrs] g show ?thesis by simp
    next
      case (Some err)
      with False put Cons.prems(1) g show ?thesis by (auto simp add: Let_def)
    qed
  qed
qed

lemma sync_reject_taker_miss:
  assumes "Hash ut \<notin> Hash ` set rs"
  shows "sync_reject_taker T t rs (l, ut, hs) = (None, (l, ut, hs @ map Hash rs))"
  using assms by (induction rs arbitrary: hs) (auto simp add: Let_def)

lemma sync_rejects_other:
  assumes run: "sync_rejects T t dirty rs ut l = (e, l')" and wf: "store_wf (mongodb l)"
    and ut: "Hash ut \<notin> Hash ` set rs" and h: "h \<notin> Hash ` set rs"
  shows "GetObject (mongodb l') h = GetObject (mongodb l) h"
proof (cases "rs = []")
  case True
  with run show ?thesis by (simp add: sync_rejects_def)
next
  case False
  let ?ms = "GetListLendingItemByHashes (mongodb l) (map Hash rs)"
  from False run sync_reject_taker_miss [OF ut, of T t l "[]"]
  have r: "sync_rejected T t dirty ?ms l = (e, l')"
    by (simp add: sync_rejects_def)
  have "h \<notin> Hash ` set ?ms"
    using GetList_hashes [OF wf, of _ "map Hash rs"] h by auto
  from sync_rejected_other [OF r this] show ?thesis .
qed

lemma sync_trades_taker:
  assumes "sync_trades t trs (db, dirty, hs, ut) = (None, (db', dirty', hs', ut'))"
  shows "ut' = foldl (\<lambda>u tr. takerApplyTrade (Amount tr) u) ut trs \<and>
         hs' = hs @ map MakerOrderHash trs"
  using assms
proof (induction trs arbitrary: db dirty hs ut)
  case Nil
  then show ?case by simp
next
  case (Cons tr trs)
  let ?tr1 = "if TradeCreatedAt tr = 0 then tr\<lparr>TradeCreatedAt := t\<rparr> else tr"
  let ?tr2 = "?tr1\<lparr>TradeUpdatedAt := t\<rparr>"
  have f: "Amount ?tr2 = Amount tr" "MakerOrderHash ?tr2 = MakerOrderHash tr" by simp_all
  obtain e1 db1 where p: "PutTrade db (TradeHash ?tr2) ?tr2 = (e1, db1)"
    by (cases "PutTrade db (TradeHash ?tr2) ?tr2") auto
  with Cons.prems have e1: "e1 = None" by (cases e1) (auto simp add: Let_def)
  let ?d = "dirty(MakerOrderHash tr \<mapsto>
              (case dirty (MakerOrderHash tr) of Some amount \<Rightarrow> amount | None \<Rightarrow> 0) + Amount tr)"
  from p e1 Cons.prems
  have "sync_trades t trs (db1, ?d, hs @ [MakerOrderHash tr], takerApplyTrade (Amount tr) ut)
          = (None, (db', dirty', hs', ut'))"
    by (simp add: Let_def f del: fun_upd_apply)
  from Cons.IH [OF this] show ?case by simp
qed

lemma taker_fold_status:
  assumes "trs \<noteq> []" and "u = foldl (\<lambda>u tr. takerApplyTrade (Amount tr) u) ut trs"
  shows "(Type u = Limit \<longrightarrow>
            (Status u = LendingStatusFilled \<longleftrightarrow> Quantity u \<le> FilledAmount u) \<and>
            (FilledAmount u < Quantity u \<longrightarrow> Status u = LendingStatusPartialFilled))"
proof -
  from assms(1) obtain ys y where trs: "trs = ys @ [y]"
    by (metis rev_exhaust)
  let ?w = "foldl (\<lambda>u tr. takerApplyTrade (Amount tr) u) ut ys"
  have "u = takerApplyTrade (Amount y) ?w" using assms(2) trs by simp
  then show ?thesis
    by (auto simp add: takerApplyTrade_def Let_def status_defs)
qed

lemma takerMarketStatus_status:
  "(Type u = Limit \<longrightarrow> takerMarketStatus u = u) \<and>
   (Type u = Market \<longrightarrow>
      (Status (takerMarketStatus u) = LendingStatusFilled \<longleftrightarrow> 0 < FilledAmount u) \<and>
      (\<not> 0 < FilledAmount u \<longrightarrow> Status (takerMarketStatus u) = LendingStatusReject))"
  by (auto simp add: takerMarketStatus_def status_defs)

lemma takerMarketStatus_more [simp]:
  "Type (takerMarketStatus u) = Type u" "Quantity (takerMarketStatus u) = Quantity u"
  "FilledAmount (takerMarketStatus u) = FilledAmount u"
  by (simp_all add: takerMarketStatus_def)

lemma makerUpdate_status:
  "(Status (makerUpdate T t a m) = LendingStatusFilled
      \<longleftrightarrow> Quantity (makerUpdate T t a m) \<le> FilledAmount (makerUpdate T t a m)) \<and>
   (FilledAmount (makerUpdate T t a m) < Quantity (makerUpdate T t a m)
      \<longrightarrow> Status (makerUpdate T t a m) = LendingStatusPartialFilled)"
  by (auto simp add: makerUpdate_def Let_def status_defs)

lemma sync_examples:
  "fst exSyncA = None \<and> snd (snd exSyncA) = 1 \<and>
   map_option (\<lambda>r. (Type r, Quantity r, FilledAmount r))
     (GetObject (mongodb (fst (snd exSyncA))) 10) = Some (Limit, 30, 30) \<and>
   map_option (\<lambda>r. (Quantity r, FilledAmount r))
     (GetObject (mongodb (fst (snd exSyncA))) 20) = Some (100, 30) \<and>
   fst exSyncMarket = None \<and> snd (snd exSyncMarket) = 1 \<and>
   map_option (\<lambda>r. (Type r, FilledAmount r))
     (GetObject (mongodb (fst (snd exSyncMarket))) 11) = Some (Market, 30)"
  by (simp add: exSyncA_def exSyncMarket_def sync_defs ex_defs status_defs Let_def)

text \<open>
  C7 as amended. Let a call of \<^verbatim>\<open>SyncDataToSDKNode\<close> pass the gate and return nil, on a
  store that keeps every record once under its own hash, for a taker that is neither
  the maker of one of the trades nor among the rejected items. Then the store holds
  the taker, and: when it is a Limit order and the call has at least one trade, its
  status is Filled exactly when \<open>FilledAmount \<ge> Quantity\<close> and PartialFilled otherwise;
  when it is a Market order, its status is Filled exactly when \<open>FilledAmount > 0\<close> and
  Rejected otherwise. Every other record that the call has changed and that is not
  among the rejected items (a maker) is Filled exactly when
  \<open>FilledAmount \<ge> Quantity\<close> and PartialFilled otherwise. All of this for every amount.
\<close>

theorem sync_stored_status:
  assumes wf: "store_wf (mongodb l)"
    and run: "SyncDataToSDKNode l taker txHash t trades rejects c = (None, l', c + 1)"
    and noself: "Hash taker \<notin> MakerOrderHash ` set trades"
    and norej: "Hash taker \<notin> Hash ` set rejects"
  shows "(\<exists>r. GetObject (mongodb l') (Hash taker) = Some r \<and>
            (Type r = Limit \<and> trades \<noteq> [] \<longrightarrow>
               (Status r = LendingStatusFilled \<longleftrightarrow> Quantity r \<le> FilledAmount r) \<and>
               (FilledAmount r < Quantity r \<longrightarrow> Status r = LendingStatusPartialFilled)) \<and>
            (Type r = Market \<longrightarrow>
               (Status r = LendingStatusFilled \<longleftrightarrow> 0 < FilledAmount r) \<and>
               (\<not> 0 < FilledAmount r \<longrightarrow> Status r = LendingStatusReject))) \<and>
         (\<forall>h r. h \<noteq> Hash taker \<and> h \<notin> Hash ` set rejects \<and>
                GetObject (mongodb l') h = Some r \<and> GetObject (mongodb l) h \<noteq> Some r \<longrightarrow>
               (Status r = LendingStatusFilled \<longleftrightarrow> Quantity r \<le> FilledAmount r) \<and>
               (FilledAmount r < Quantity r \<longrightarrow> Status r = LendingStatusPartialFilled))"
proof -
  let ?ut = "takerAtGate (mongodb l) taker txHash t"
  let ?ls = "takerLastState (mongodb l) taker"
  let ?l1 = "UpdateLendingItemCache l (LendingToken ?ut) (CollateralToken ?ut) (Hash ?ut)
               txHash ?ls"
  let ?u1 = "?ut\<lparr>UpdatedAt := t\<rparr>"
  have c: "c + 1 \<noteq> c" by simp
  from run c have ap: "sync_apply l ?ut ?ls txHash t trades rejects = (None, l')"
    by (auto simp add: SyncDataToSDKNode_def Let_def split: if_splits prod.splits)
  from wf have hk: "Hash ?ut = Hash taker"
    by (intro Hash_takerAtGate) (simp add: store_wf_def)
  obtain e2 db2 dirty hs u2 where
    tr: "sync_trades t trades (mongodb ?l1, Map.empty, [], ?u1) = (e2, (db2, dirty, hs, u2))"
    by (metis prod_cases3 surj_pair)
  from ap tr have e2: "e2 = None"
    by (cases e2) (auto simp add: sync_apply_def Let_def)
  note fr = sync_trades_frame [OF tr]
  from sync_trades_taker [OF tr [unfolded e2]]
  have u2: "u2 = foldl (\<lambda>u tr. takerApplyTrade (Amount tr) u) ?u1 trades"
    and hs: "hs = map MakerOrderHash trades"
    by simp_all
  let ?u3 = "takerMarketStatus u2"
  have h3: "Hash ?u3 = Hash taker" using fr hk by simp
  obtain e3 db3 where put: "PutObject db2 (Hash ?u3) ?u3 = (e3, db3)"
    by (cases "PutObject db2 (Hash ?u3) ?u3") auto
  from ap tr e2 put have e3: "e3 = None"
    by (cases e3) (auto simp add: sync_apply_def Let_def)
  have g2: "GetObject db2 = GetObject (mongodb l)"
    using fr by (simp add: GetObject_def fun_eq_iff)
  have wf2: "store_wf db2" using wf fr by (simp add: store_wf_def)
  from store_wf_PutObject [OF wf2 put] have wf3: "store_wf db3" .
  from GetObject_PutObject_same [OF put [unfolded e3]] h3
  have t3: "GetObject db3 (Hash taker) = Some ?u3" by simp
  have o3: "GetObject db3 h = GetObject (mongodb l) h" if "h \<noteq> Hash taker" for h
    using GetObject_PutObject_other [OF put, of h] that h3 g2 by simp
  let ?ms = "GetListLendingItemByHashes db3 hs"
  obtain e4 l4 where mk: "sync_makers txHash t dirty ?ms (?l1\<lparr>mongodb := db3\<rparr>) = (e4, l4)"
    by (cases "sync_makers txHash t dirty ?ms (?l1\<lparr>mongodb := db3\<rparr>)") auto
  from ap tr e2 put e3 mk have e4: "e4 = None"
    by (cases e4) (auto simp add: sync_apply_def Let_def)
  have nm: "Hash taker \<notin> Hash ` set ?ms"
    using GetList_hashes [OF wf3, of _ hs] noself hs by auto
  from sync_makers_other [OF mk nm] t3
  have t4: "GetObject (mongodb l4) (Hash taker) = Some ?u3" by simp
  from store_wf_sync_makers [OF mk] wf3 have wf4: "store_wf (mongodb l4)" by simp
  obtain e5 l5 where rj: "sync_rejects txHash t dirty rejects ?u3 l4 = (e5, l5)"
    by (cases "sync_rejects txHash t dirty rejects ?u3 l4") auto
  from ap tr e2 put e3 mk e4 rj have l5: "l' = l5"
    by (cases e5) (auto simp add: sync_apply_def Let_def split: option.splits)
  have nr: "Hash ?u3 \<notin> Hash ` set rejects" using norej h3 by simp
  have o5: "GetObject (mongodb l') h = GetObject (mongodb l4) h" if "h \<notin> Hash ` set rejects" for h
    using sync_rejects_other [OF rj wf4 nr that] l5 by simp
  have taker: "GetObject (mongodb l') (Hash taker) = Some ?u3"
    using o5 [OF norej] t4 by simp
  have lim: "(Status ?u3 = LendingStatusFilled \<longleftrightarrow> Quantity ?u3 \<le> FilledAmount ?u3) \<and>
             (FilledAmount ?u3 < Quantity ?u3 \<longrightarrow> Status ?u3 = LendingStatusPartialFilled)"
    if "Type ?u3 = Limit" "trades \<noteq> []"
  proof -
    from that(1) have ty: "Type u2 = Limit" by simp
    with takerMarketStatus_status [of u2] have same: "?u3 = u2" by simp
    from taker_fold_status [OF that(2) u2] ty show ?thesis unfolding same by simp
  qed
  have mar: "(Status ?u3 = LendingStatusFilled \<longleftrightarrow> 0 < FilledAmount ?u3) \<and>
             (\<not> 0 < FilledAmount ?u3 \<longrightarrow> Status ?u3 = LendingStatusReject)"
    if "Type ?u3 = Market"
    using takerMarketStatus_status [of u2] that by simp
  have others: "(Status r = LendingStatusFilled \<longleftrightarrow> Quantity r \<le> FilledAmount r) \<and>
                (FilledAmount r < Quantity r \<longrightarrow> Status r = LendingStatusPartialFilled)"
    if "h \<noteq> Hash taker" "h \<notin> Hash ` set rejects" "GetObject (mongodb l') h = Some r"
      "GetObject (mongodb l) h \<noteq> Some r" for h r
  proof -
    from o5 [OF that(2)] that(3) have a: "GetObject (mongodb l4) h = Some r" by simp
    from sync_makers_changed [OF mk, of h] o3 [OF that(1)] a that(4)
    obtain a' m where "r = makerUpdate txHash t a' m" by auto
    with makerUpdate_status [of txHash t a' m] show ?thesis by simp
  qed
  from taker lim mar others show ?thesis by blast
qed

theorem sync_stored_status_witness:
  "store_wf (mongodb exLendingMaker) \<and>
   fst exSyncA = None \<and> snd (snd exSyncA) = 0 + 1 \<and>
   map_option Status (GetObject (mongodb (fst (snd exSyncA))) 10) = Some LendingStatusFilled \<and>
   map_option Status (GetObject (mongodb (fst (snd exSyncA))) 20)
     = Some LendingStatusPartialFilled \<and>
   fst exSyncMarket = None \<and> snd (snd exSyncMarket) = 0 + 1 \<and>
   map_option Status (GetObject (mongodb (fst (snd exSyncMarket))) 11) = Some LendingStatusFilled"
proof -
  let ?A = "fst (snd exSyncA)" and ?M = "fst (snd exSyncMarket)"
  have wf: "store_wf (mongodb exLendingMaker)"
    by (simp add: store_wf_def ex_defs)
  have "exSyncA = (None, ?A, 0 + 1)"
    using sync_examples by (metis add_0 prod.collapse)
  then have runA: "SyncDataToSDKNode exLendingMaker (exItem 10 Limit 30 0 0 0) 77 100
                     [exTrade 500 77 20 30 100] [] 0 = (None, ?A, 0 + 1)"
    by (simp only: exSyncA_def [symmetric])
  have "exSyncMarket = (None, ?M, 0 + 1)"
    using sync_examples by (metis add_0 prod.collapse)
  then have runM: "SyncDataToSDKNode exLendingMaker (exItem 11 Market 100 0 0 0) 78 100
                     [exTrade 502 78 20 30 100] [] 0 = (None, ?M, 0 + 1)"
    by (simp only: exSyncMarket_def [symmetric])
  have nsA: "Hash (exItem 10 Limit 30 0 0 0) \<notin> MakerOrderHash ` set [exTrade 500 77 20 30 100]"
    and nsM: "Hash (exItem 11 Market 100 0 0 0) \<notin> MakerOrderHash ` set [exTrade 502 78 20 30 100]"
    and nr: "Hash (exItem 10 Limit 30 0 0 0) \<notin> Hash ` set []"
      "Hash (exItem 11 Market 100 0 0 0) \<notin> Hash ` set []"
    by (simp_all add: exItem_def exTrade_def)
  have hA: "Hash (exItem 10 Limit 30 0 0 0) = 10" and hM: "Hash (exItem 11 Market 100 0 0 0) = 11"
    by (simp_all add: exItem_def)
  note tA = sync_stored_status [OF wf runA nsA nr(1), unfolded hA]
  note tM = sync_stored_status [OF wf runM nsM nr(2), unfolded hM]
  from tA obtain r where r: "GetObject (mongodb ?A) 10 = Some r"
    and rl: "Type r = Limit \<and> [exTrade 500 77 20 30 100] \<noteq> [] \<longrightarrow>
               (Status r = LendingStatusFilled \<longleftrightarrow> Quantity r \<le> FilledAmount r)"
    by blast
  from sync_examples r have "Type r = Limit" "Quantity r = 30" "FilledAmount r = 30"
    by simp_all
  with rl have "Status r = LendingStatusFilled" by simp
  with r have s10: "map_option Status (GetObject (mongodb ?A) 10) = Some LendingStatusFilled"
    by simp
  from sync_examples obtain m where m: "GetObject (mongodb ?A) 20 = Some m"
    and mf: "Quantity m = 100" "FilledAmount m = 30"
    by auto
  have "GetObject (mongodb exLendingMaker) 20 \<noteq> Some m"
    using mf by (auto simp add: GetObject_def ex_defs)
  with tA m have "FilledAmount m < Quantity m \<longrightarrow> Status m = LendingStatusPartialFilled"
    by (auto dest!: spec [where x = 20])
  with mf m have s20: "map_option Status (GetObject (mongodb ?A) 20)
                         = Some LendingStatusPartialFilled"
    by simp
  from tM obtain q where q: "GetObject (mongodb ?M) 11 = Some q"
    and qm: "Type q = Market \<longrightarrow> (Status q = LendingStatusFilled \<longleftrightarrow> 0 < FilledAmount q)"
    by blast
  from sync_examples q have "Type q = Market" "FilledAmount q = 30" by simp_all
  with qm have "Status q = LendingStatusFilled" by simp
  with q have s11: "map_option Status (GetObject (mongodb ?M) 11) = Some LendingStatusFilled"
    by simp
  from wf sync_examples s10 s20 s11 show ?thesis by simp
qed

end
